theory Spec2Isabelle
  imports Main
begin

section \<open>Text and numbers\<close>

text \<open>
  Text is a \<^typ>\<open>string\<close>: the bytes of its UTF-8 encoding. Percent-encoding works on
  exactly these bytes. A JavaScript string holding an unpaired surrogate has no UTF-8
  encoding and is outside this model. Numbers are integers (\<^typ>\<open>int\<close>): the values the
  tools meet (page sizes, HTTP status codes) are integral, and JavaScript prints an
  integral number below \<open>10\<^sup>2\<^sup>1\<close> in magnitude in plain decimal.
\<close>

definition dec_digit :: "nat \<Rightarrow> char" where
  "dec_digit n = ''0123456789'' ! (n mod 10)"

function dec_digits :: "nat \<Rightarrow> string" where
  "dec_digits n =
     (if n < 10 then [dec_digit n]
      else dec_digits (n div 10) @ [dec_digit n])"
  by pat_completeness auto
termination
  by (relation "measure (\<lambda>n. n)") auto

declare dec_digits.simps [simp del]

text \<open>\<open>String(n)\<close> and the \<open>${n}\<close> of a template literal, for an integral number.\<close>

definition js_String :: "int \<Rightarrow> string" where
  "js_String n = (if n < 0 then CHR ''-'' # dec_digits (nat (- n)) else dec_digits (nat n))"

fun join :: "'a list \<Rightarrow> 'a list list \<Rightarrow> 'a list" where
  "join sep [] = []"
| "join sep [x] = x"
| "join sep (x # y # ys) = x @ sep @ join sep (y # ys)"

definition ascii_alphanumeric :: "char \<Rightarrow> bool" where
  "ascii_alphanumeric c =
     (c \<in> set ''ABCDEFGHIJKLMNOPQRSTUVWXYZabcdefghijklmnopqrstuvwxyz0123456789'')"

definition upper_hex :: "nat \<Rightarrow> char" where
  "upper_hex n = ''0123456789ABCDEF'' ! (n mod 16)"

definition lower_hex :: "nat \<Rightarrow> char" where
  "lower_hex n = ''0123456789abcdef'' ! (n mod 16)"

definition percent_encode_byte :: "char \<Rightarrow> string" where
  "percent_encode_byte c =
     [CHR ''%'', upper_hex (of_char c div 16), upper_hex (of_char c mod 16)]"

section \<open>JSON values and \<open>JSON.stringify(data, null, 2)\<close>\<close>

text \<open>
  A parsed JSON value, as \<open>res.json()\<close> and the protocol layer hand it over: an object is
  the list of its properties in enumeration order.
\<close>

datatype json =
    JNull
  | JBool bool
  | JNum int
  | JStr string
  | JArr "json list"
  | JObj "(string \<times> json) list"

text \<open>
  \<open>QuoteJSONString\<close>: the double quote and the backslash are escaped, control bytes get
  their short escape or \<open>\u00XX\<close> in lower-case hex, every other byte stands for itself.
\<close>

definition quote_json_char :: "char \<Rightarrow> string" where
  "quote_json_char c =
     (if c = CHR 0x08 then [CHR 0x5C, CHR ''b'']
      else if c = CHR 0x09 then [CHR 0x5C, CHR ''t'']
      else if c = CHR 0x0A then [CHR 0x5C, CHR ''n'']
      else if c = CHR 0x0C then [CHR 0x5C, CHR ''f'']
      else if c = CHR 0x0D then [CHR 0x5C, CHR ''r'']
      else if c = CHR 0x22 then [CHR 0x5C, CHR 0x22]
      else if c = CHR 0x5C then [CHR 0x5C, CHR 0x5C]
      else if (of_char c :: nat) < 32
        then [CHR 0x5C, CHR ''u'', CHR ''0'', CHR ''0'',
              lower_hex (of_char c div 16), lower_hex (of_char c mod 16)]
      else [c])"

definition QuoteJSONString :: "string \<Rightarrow> string" where
  "QuoteJSONString s = [CHR 0x22] @ concat (map quote_json_char s) @ [CHR 0x22]"

text \<open>
  \<open>SerializeJSONProperty\<close> with the gap of two spaces; \<open>indent\<close> is the indentation of the
  enclosing level. An empty array or object is printed without line breaks.
\<close>

fun serialize_json :: "string \<Rightarrow> json \<Rightarrow> string" where
  "serialize_json indent JNull = ''null''"
| "serialize_json indent (JBool b) = (if b then ''true'' else ''false'')"
| "serialize_json indent (JNum n) = js_String n"
| "serialize_json indent (JStr s) = QuoteJSONString s"
| "serialize_json indent (JArr xs) =
     (if xs = [] then ''[]''
      else ''['' @ [CHR 0x0A] @ (indent @ ''  '') @
           join ('','' @ [CHR 0x0A] @ (indent @ ''  ''))
             (map (serialize_json (indent @ ''  '')) xs) @
           [CHR 0x0A] @ indent @ '']'')"
| "serialize_json indent (JObj ps) =
     (if ps = [] then ''{}''
      else ''{'' @ [CHR 0x0A] @ (indent @ ''  '') @
           join ('','' @ [CHR 0x0A] @ (indent @ ''  ''))
             (map (\<lambda>(k, v). QuoteJSONString k @ '': '' @ serialize_json (indent @ ''  '') v) ps) @
           [CHR 0x0A] @ indent @ ''}'')"

definition JSON_stringify :: "json \<Rightarrow> string" where
  "JSON_stringify data = serialize_json [] data"

section \<open>URLs\<close>

text \<open>
  \<open>encodeURIComponent\<close> keeps the ASCII letters and digits and \<open>- _ . ! ~ * ' ( )\<close>, and
  percent-encodes every other byte.
\<close>

definition uri_unescaped :: "char \<Rightarrow> bool" where
  "uri_unescaped c = (ascii_alphanumeric c \<or> c \<in> set (''-_.!~*()'' @ [CHR 0x27]))"

definition encodeURIComponent :: "string \<Rightarrow> string" where
  "encodeURIComponent s =
     concat (map (\<lambda>c. if uri_unescaped c then [c] else percent_encode_byte c) s)"

text \<open>
  The \<open>application/x-www-form-urlencoded\<close> serializer behind \<open>url.searchParams\<close>: a space
  becomes \<open>+\<close>, the letters, digits and \<open>* - . _\<close> stay, every other byte is
  percent-encoded; the pairs are written \<open>name=value\<close> and joined by \<open>&\<close>.
\<close>

definition urlencoded_byte :: "char \<Rightarrow> string" where
  "urlencoded_byte c =
     (if c = CHR '' '' then ''+''
      else if ascii_alphanumeric c \<or> c \<in> set ''*-._'' then [c]
      else percent_encode_byte c)"

definition urlencoded_string :: "string \<Rightarrow> string" where
  "urlencoded_string s = concat (map urlencoded_byte s)"

definition urlencoded_pair :: "string \<times> string \<Rightarrow> string" where
  "urlencoded_pair p = urlencoded_string (fst p) @ ''='' @ urlencoded_string (snd p)"

definition urlencoded_serialize :: "(string \<times> string) list \<Rightarrow> string" where
  "urlencoded_serialize ps = join ''&'' (map urlencoded_pair ps)"

text \<open>
  A URL object: what precedes the query, and the list behind \<open>searchParams\<close>.
  \<open>new URL(s)\<close> is modelled for a string without query or fragment, which is the only
  use the tools make of it.
\<close>

record url =
  url_base :: string
  url_searchParams :: "(string \<times> string) list"

definition new_URL :: "string \<Rightarrow> url" where
  "new_URL s = \<lparr>url_base = s, url_searchParams = []\<rparr>"

text \<open>
  \<open>URLSearchParams.set\<close>: the first pair of that name takes the value and the others of
  that name are removed; without such a pair, the new pair is appended.
\<close>

fun params_replace :: "string \<Rightarrow> string \<Rightarrow> (string \<times> string) list \<Rightarrow> (string \<times> string) list" where
  "params_replace k v [] = []"
| "params_replace k v (p # ps) =
     (if fst p = k then (k, v) # filter (\<lambda>q. fst q \<noteq> k) ps
      else p # params_replace k v ps)"

definition params_set :: "string \<Rightarrow> string \<Rightarrow> (string \<times> string) list \<Rightarrow> (string \<times> string) list" where
  "params_set k v ps =
     (if k \<in> set (map fst ps) then params_replace k v ps else ps @ [(k, v)])"

definition searchParams_set :: "string \<Rightarrow> string \<Rightarrow> url \<Rightarrow> url" where
  "searchParams_set k v u = u\<lparr>url_searchParams := params_set k v (url_searchParams u)\<rparr>"

definition url_toString :: "url \<Rightarrow> string" where
  "url_toString u =
     url_base u @
     (if url_searchParams u = [] then []
      else CHR ''?'' # urlencoded_serialize (url_searchParams u))"

subsection \<open>Reading a request URL back\<close>

text \<open>
  What the receiving side sees in a URL string: the query is what follows the first
  \<open>?\<close> of the part before any \<open>#\<close>; the \<open>application/x-www-form-urlencoded\<close> parser
  splits it at \<open>&\<close>, drops empty pieces, splits each piece at its first \<open>=\<close>, turns
  \<open>+\<close> into a space and percent-decodes name and value.
\<close>

definition hex_value :: "char \<Rightarrow> nat option" where
  "hex_value c =
     (if c \<in> set ''0123456789'' then Some (of_char c - 48)
      else if c \<in> set ''ABCDEF'' then Some (of_char c - 55)
      else if c \<in> set ''abcdef'' then Some (of_char c - 87)
      else None)"

fun percent_decode :: "string \<Rightarrow> string" where
  "percent_decode (c # h # l # cs) =
     (if c = CHR ''%'' then
        (case (hex_value h, hex_value l) of
           (Some a, Some b) \<Rightarrow> char_of (16 * a + b) # percent_decode cs
         | _ \<Rightarrow> c # percent_decode (h # l # cs))
      else c # percent_decode (h # l # cs))"
| "percent_decode cs = cs"

definition plus_to_space :: "string \<Rightarrow> string" where
  "plus_to_space s = map (\<lambda>c. if c = CHR ''+'' then CHR '' '' else c) s"

fun split_on :: "char \<Rightarrow> string \<Rightarrow> string list" where
  "split_on d [] = [[]]"
| "split_on d (c # cs) =
     (if c = d then [] # split_on d cs
      else (case split_on d cs of [] \<Rightarrow> [[c]] | w # ws \<Rightarrow> (c # w) # ws))"

definition urlencoded_decode :: "string \<Rightarrow> string" where
  "urlencoded_decode s = percent_decode (plus_to_space s)"

definition urlencoded_parse :: "string \<Rightarrow> (string \<times> string) list" where
  "urlencoded_parse q =
     map (\<lambda>s. (urlencoded_decode (takeWhile (\<lambda>c. c \<noteq> CHR ''='') s),
               urlencoded_decode (drop 1 (dropWhile (\<lambda>c. c \<noteq> CHR ''='') s))))
       (filter (\<lambda>s. s \<noteq> []) (split_on (CHR ''&'') q))"


definition request_query :: "string \<Rightarrow> string" where
  "request_query u =
     drop 1 (dropWhile (\<lambda>c. c \<noteq> CHR ''?'') (takeWhile (\<lambda>c. c \<noteq> CHR ''#'') u))"

definition request_params :: "string \<Rightarrow> (string \<times> string) list" where
  "request_params u = urlencoded_parse (request_query u)"

section \<open>The schema layer\<close>

text \<open>
  The arguments of a call arrive as a JSON object; a parameter that is not there reads as
  \<open>None\<close> (\<open>undefined\<close>). Each parameter's schema is built from the zod combinators the
  source uses: \<open>z.string()\<close> and \<open>z.number()\<close> accept a value of that type and nothing
  else (any string, the empty one too); \<open>.optional()\<close> also accepts \<open>undefined\<close>;
  \<open>.default(d)\<close> replaces \<open>undefined\<close> by \<open>d\<close> before the inner schema runs.
  \<open>.describe(...)\<close> changes nothing. The object schema checks every parameter and collects
  the issues found.
\<close>

datatype zod_issue = Required | Expected_string | Expected_number

type_synonym 'a zod_schema = "json option \<Rightarrow> zod_issue list + 'a"

type_synonym js_object = "string \<rightharpoonup> json"

type_synonym 'a zod_object_result = "(string \<times> zod_issue) list + 'a"

definition z_string :: "string zod_schema" where
  "z_string v =
     (case v of
        None \<Rightarrow> Inl [Required]
      | Some (JStr s) \<Rightarrow> Inr s
      | Some _ \<Rightarrow> Inl [Expected_string])"

definition z_number :: "int zod_schema" where
  "z_number v =
     (case v of
        None \<Rightarrow> Inl [Required]
      | Some (JNum n) \<Rightarrow> Inr n
      | Some _ \<Rightarrow> Inl [Expected_number])"

definition z_optional :: "'a zod_schema \<Rightarrow> 'a option zod_schema" where
  "z_optional inner v =
     (case v of
        None \<Rightarrow> Inr None
      | Some _ \<Rightarrow> (case inner v of Inl issues \<Rightarrow> Inl issues | Inr x \<Rightarrow> Inr (Some x)))"

definition z_default :: "'a zod_schema \<Rightarrow> json \<Rightarrow> 'a zod_schema" where
  "z_default inner d v = inner (case v of None \<Rightarrow> Some d | Some x \<Rightarrow> Some x)"

definition z_field :: "js_object \<Rightarrow> string \<Rightarrow> 'a zod_schema \<Rightarrow> 'a zod_object_result" where
  "z_field raw name schema =
     (case schema (raw name) of
        Inl issues \<Rightarrow> Inl (map (Pair name) issues)
      | Inr x \<Rightarrow> Inr x)"

fun z_both :: "('a \<Rightarrow> 'b) zod_object_result \<Rightarrow> 'a zod_object_result \<Rightarrow> 'b zod_object_result" where
  "z_both (Inr f) (Inr x) = Inr (f x)"
| "z_both (Inr f) (Inl issues) = Inl issues"
| "z_both (Inl issues) (Inr x) = Inl issues"
| "z_both (Inl issues) (Inl others) = Inl (issues @ others)"

section \<open>The upstream call and its relay\<close>

datatype js_exception = Exception string string

record response =
  res_status :: int
  res_statusText :: string
  res_text :: "js_exception + string"
  res_json :: "js_exception + json"

text \<open>\<open>res.ok\<close>: the status is in the range 200 to 299.\<close>

definition res_ok :: "response \<Rightarrow> bool" where
  "res_ok res = (200 \<le> res_status res \<and> res_status res \<le> 299)"

text \<open>\<open>fetch(url)\<close> resolves with a response or rejects with an exception.\<close>

type_synonym fetch = "string \<Rightarrow> js_exception + response"

record content_block =
  block_type :: string
  block_text :: string

record call_tool_result =
  content :: "content_block list"

text \<open>
  What each of the three handlers does with the response (the same lines in all three):
  a response that is not ok is reported with its status, status text and body; an ok one
  has its JSON body printed with two spaces of indentation. There is no \<open>try\<close>: an
  exception of \<open>res.text()\<close> or \<open>res.json()\<close> leaves the handler.
\<close>

definition relay_response :: "response \<Rightarrow> js_exception + call_tool_result" where
  "relay_response res =
     (if \<not> res_ok res then
        (case res_text res of
           Inl e \<Rightarrow> Inl e
         | Inr body \<Rightarrow>
             Inr \<lparr>content =
               [\<lparr>block_type = ''text'',
                 block_text = ''ClinicalTrials.gov error: '' @ js_String (res_status res) @ '' '' @
                   res_statusText res @ [CHR 0x0A] @ body\<rparr>]\<rparr>)
      else
        (case res_json res of
           Inl e \<Rightarrow> Inl e
         | Inr data \<Rightarrow>
             Inr \<lparr>content = [\<lparr>block_type = ''text'', block_text = JSON_stringify data\<rparr>]\<rparr>))"

text \<open>
  A handler's run: the URLs it fetched, in order, and how it ended (\<open>Inl\<close>: the exception
  that left it).
\<close>

type_synonym handler_run = "string list \<times> (js_exception + call_tool_result)"

definition BASE_URL :: string where
  "BASE_URL = ''https://clinicaltrials.gov/api/v2''"

text \<open>\<open>if (x) url.searchParams.set(name, x)\<close>: \<open>undefined\<close> and the empty string are falsy.\<close>

definition set_if_truthy :: "string \<Rightarrow> string option \<Rightarrow> url \<Rightarrow> url" where
  "set_if_truthy name x u =
     (case x of
        None \<Rightarrow> u
      | Some s \<Rightarrow> if s = [] then u else searchParams_set name s u)"

text \<open>A destructuring default \<open>x = d\<close>.\<close>

definition or_default :: "'a \<Rightarrow> 'a option \<Rightarrow> 'a" where
  "or_default d x = (case x of None \<Rightarrow> d | Some y \<Rightarrow> y)"

section \<open>Tool 1: \<open>list_studies\<close>\<close>

record list_studies_args =
  ls_cond :: string
  ls_term :: "string option"
  ls_locn :: "string option"
  ls_overallStatus :: "string option"
  ls_pageSize :: "int option"
  ls_format :: "string option"
  ls_fields :: "string option"
  ls_countTotal :: "string option"
  ls_pageToken :: "string option"

definition list_studies_schema :: "js_object \<Rightarrow> list_studies_args zod_object_result" where
  "list_studies_schema raw =
     z_both (z_both (z_both (z_both (z_both (z_both (z_both (z_both (z_both
       (Inr (\<lambda>cond term' locn overallStatus pageSize format fields countTotal pageToken.
          \<lparr>ls_cond = cond, ls_term = term', ls_locn = locn, ls_overallStatus = overallStatus,
           ls_pageSize = pageSize, ls_format = format, ls_fields = fields,
           ls_countTotal = countTotal, ls_pageToken = pageToken\<rparr>))
       (z_field raw ''cond'' z_string))
       (z_field raw ''term'' (z_optional z_string)))
       (z_field raw ''locn'' (z_optional z_string)))
       (z_field raw ''overallStatus'' (z_optional z_string)))
       (z_field raw ''pageSize'' (z_default (z_optional z_number) (JNum 20))))
       (z_field raw ''format'' (z_default (z_optional z_string) (JStr ''json''))))
       (z_field raw ''fields'' (z_optional z_string)))
       (z_field raw ''countTotal'' (z_default (z_optional z_string) (JStr ''true''))))
       (z_field raw ''pageToken'' (z_optional z_string))"

definition list_studies_url :: "list_studies_args \<Rightarrow> url" where
  "list_studies_url a =
     (let pageSize = or_default 20 (ls_pageSize a);
          format = or_default ''json'' (ls_format a);
          countTotal = or_default ''true'' (ls_countTotal a);
          url = new_URL (BASE_URL @ ''/studies'');
          url = searchParams_set ''query.cond'' (ls_cond a) url;
          url = set_if_truthy ''query.term'' (ls_term a) url;
          url = set_if_truthy ''query.locn'' (ls_locn a) url;
          url = set_if_truthy ''filter.overallStatus'' (ls_overallStatus a) url;
          url = set_if_truthy ''fields'' (ls_fields a) url;
          url = set_if_truthy ''pageToken'' (ls_pageToken a) url;
          url = searchParams_set ''pageSize'' (js_String pageSize) url;
          url = searchParams_set ''format'' format url;
          url = searchParams_set ''countTotal'' countTotal url
      in url)"

definition list_studies :: "fetch \<Rightarrow> list_studies_args \<Rightarrow> handler_run" where
  "list_studies fetch a =
     (let url = list_studies_url a
      in ([url_toString url],
          case fetch (url_toString url) of
            Inl e \<Rightarrow> Inl e
          | Inr res \<Rightarrow> relay_response res))"

section \<open>Tool 2: \<open>get_study\<close>\<close>

record get_study_args =
  gs_nct_id :: string

definition get_study_schema :: "js_object \<Rightarrow> get_study_args zod_object_result" where
  "get_study_schema raw =
     z_both (Inr (\<lambda>nct_id. \<lparr>gs_nct_id = nct_id\<rparr>)) (z_field raw ''nct_id'' z_string)"

definition get_study_url :: "get_study_args \<Rightarrow> string" where
  "get_study_url a = BASE_URL @ ''/studies/'' @ encodeURIComponent (gs_nct_id a)"

definition get_study :: "fetch \<Rightarrow> get_study_args \<Rightarrow> handler_run" where
  "get_study fetch a =
     (let url = get_study_url a
      in ([url],
          case fetch url of
            Inl e \<Rightarrow> Inl e
          | Inr res \<Rightarrow> relay_response res))"

section \<open>Tool 3: \<open>specific_fields_in_study\<close>\<close>

record specific_fields_args =
  sf_cond :: string
  sf_fields :: string
  sf_term :: "string option"
  sf_locn :: "string option"
  sf_overallStatus :: "string option"
  sf_pageSize :: "int option"
  sf_format :: "string option"
  sf_countTotal :: "string option"
  sf_pageToken :: "string option"

definition specific_fields_in_study_schema :: "js_object \<Rightarrow> specific_fields_args zod_object_result" where
  "specific_fields_in_study_schema raw =
     z_both (z_both (z_both (z_both (z_both (z_both (z_both (z_both (z_both
       (Inr (\<lambda>cond fields term' locn overallStatus pageSize format countTotal pageToken.
          \<lparr>sf_cond = cond, sf_fields = fields, sf_term = term', sf_locn = locn,
           sf_overallStatus = overallStatus, sf_pageSize = pageSize, sf_format = format,
           sf_countTotal = countTotal, sf_pageToken = pageToken\<rparr>))
       (z_field raw ''cond'' z_string))
       (z_field raw ''fields'' z_string))
       (z_field raw ''term'' (z_optional z_string)))
       (z_field raw ''locn'' (z_optional z_string)))
       (z_field raw ''overallStatus'' (z_optional z_string)))
       (z_field raw ''pageSize'' (z_default (z_optional z_number) (JNum 20))))
       (z_field raw ''format'' (z_default (z_optional z_string) (JStr ''json''))))
       (z_field raw ''countTotal'' (z_default (z_optional z_string) (JStr ''true''))))
       (z_field raw ''pageToken'' (z_optional z_string))"

definition specific_fields_in_study_url :: "specific_fields_args \<Rightarrow> url" where
  "specific_fields_in_study_url a =
     (let pageSize = or_default 20 (sf_pageSize a);
          format = or_default ''json'' (sf_format a);
          countTotal = or_default ''true'' (sf_countTotal a);
          url = new_URL (BASE_URL @ ''/studies'');
          url = searchParams_set ''query.cond'' (sf_cond a) url;
          url = searchParams_set ''fields'' (sf_fields a) url;
          url = set_if_truthy ''query.term'' (sf_term a) url;
          url = set_if_truthy ''query.locn'' (sf_locn a) url;
          url = set_if_truthy ''filter.overallStatus'' (sf_overallStatus a) url;
          url = set_if_truthy ''pageToken'' (sf_pageToken a) url;
          url = searchParams_set ''pageSize'' (js_String pageSize) url;
          url = searchParams_set ''format'' format url;
          url = searchParams_set ''countTotal'' countTotal url
      in url)"

definition specific_fields_in_study :: "fetch \<Rightarrow> specific_fields_args \<Rightarrow> handler_run" where
  "specific_fields_in_study fetch a =
     (let url = specific_fields_in_study_url a
      in ([url_toString url],
          case fetch (url_toString url) of
            Inl e \<Rightarrow> Inl e
          | Inr res \<Rightarrow> relay_response res))"

section \<open>Registered tools\<close>

text \<open>
  \<open>server.tool(name, shape, handler)\<close>: a call's arguments are checked against the shape
  first; when they fail, the handler is not run and nothing is fetched. The stdio server
  and the HTTP server (\<open>dist/server.js\<close>) register the same three tools with the same
  shapes and handlers; they differ only in the transport they connect.
\<close>

datatype tool_outcome =
    InvalidParams "(string \<times> zod_issue) list"
  | HandlerThrew js_exception
  | HandlerReturned call_tool_result

definition server_tool ::
  "(js_object \<Rightarrow> 'a zod_object_result) \<Rightarrow> (fetch \<Rightarrow> 'a \<Rightarrow> handler_run) \<Rightarrow>
   fetch \<Rightarrow> js_object \<Rightarrow> string list \<times> tool_outcome" where
  "server_tool schema handler fetch raw =
     (case schema raw of
        Inl issues \<Rightarrow> ([], InvalidParams issues)
      | Inr a \<Rightarrow>
          (case handler fetch a of
             (requests, Inl e) \<Rightarrow> (requests, HandlerThrew e)
           | (requests, Inr r) \<Rightarrow> (requests, HandlerReturned r)))"

definition tool_list_studies :: "fetch \<Rightarrow> js_object \<Rightarrow> string list \<times> tool_outcome" where
  "tool_list_studies = server_tool list_studies_schema list_studies"

definition tool_get_study :: "fetch \<Rightarrow> js_object \<Rightarrow> string list \<times> tool_outcome" where
  "tool_get_study = server_tool get_study_schema get_study"

definition tool_specific_fields_in_study :: "fetch \<Rightarrow> js_object \<Rightarrow> string list \<times> tool_outcome" where
  "tool_specific_fields_in_study =
     server_tool specific_fields_in_study_schema specific_fields_in_study"

section \<open>Notions used in the statements\<close>

text \<open>The pair a conditional \<open>set\<close> contributes: none for \<open>undefined\<close> or the empty string.\<close>

definition truthy_pair :: "string \<Rightarrow> string option \<Rightarrow> (string \<times> string) list" where
  "truthy_pair k x = (case x of None \<Rightarrow> [] | Some s \<Rightarrow> if s = [] then [] else [(k, s)])"

text \<open>
  The optional text parameters of the two list tools, each with the query key its
  conditional \<open>set\<close> writes. In \<open>specific_fields_in_study\<close> the parameter \<open>fields\<close> is
  required and set without a condition, so it is not in that tool's table.
\<close>

definition list_studies_optional :: "(string \<times> string) list" where
  "list_studies_optional =
     [(''term'', ''query.term''), (''locn'', ''query.locn''),
      (''overallStatus'', ''filter.overallStatus''), (''fields'', ''fields''),
      (''pageToken'', ''pageToken'')]"

definition specific_fields_optional :: "(string \<times> string) list" where
  "specific_fields_optional =
     [(''term'', ''query.term''), (''locn'', ''query.locn''),
      (''overallStatus'', ''filter.overallStatus''), (''pageToken'', ''pageToken'')]"

text \<open>How a tool's call ends once it has fetched \<open>u\<close>: with the exception of the
  transport or of the body's reading, or with the relayed result.\<close>

definition relayed :: "fetch \<Rightarrow> string \<Rightarrow> tool_outcome" where
  "relayed fetch u =
     (case fetch u of
        Inl e \<Rightarrow> HandlerThrew e
      | Inr res \<Rightarrow> (case relay_response res of Inl e \<Rightarrow> HandlerThrew e | Inr r \<Rightarrow> HandlerReturned r))"

section \<open>Example calls\<close>

text \<open>Three upstream behaviours: a 404 with body \<open>not found\<close>, a 200 with the JSON body
  \<open>{"a":1}\<close>, and a transport that fails before any response.\<close>

definition example_not_found :: fetch where
  "example_not_found u =
     Inr \<lparr>res_status = 404, res_statusText = ''Not Found'', res_text = Inr ''not found'',
          res_json = Inl (Exception ''SyntaxError'' ''Unexpected token'')\<rparr>"

definition example_ok :: fetch where
  "example_ok u =
     Inr \<lparr>res_status = 200, res_statusText = ''OK'',
          res_text = Inr (''{'' @ [CHR 0x22] @ ''a'' @ [CHR 0x22] @ '':1}''),
          res_json = Inr (JObj [(''a'', JNum 1)])\<rparr>"

definition example_unreachable :: fetch where
  "example_unreachable u = Inl (Exception ''TypeError'' ''fetch failed'')"

text \<open>Arguments: a condition alone; with a term and fields; with an empty term; an empty
  condition; no condition; a study identifier.\<close>

definition call_cond_only :: js_object where
  "call_cond_only = [''cond'' \<mapsto> JStr ''breast cancer'']"

definition call_term_fields :: js_object where
  "call_term_fields = [''cond'' \<mapsto> JStr ''flu'', ''term'' \<mapsto> JStr ''vaccine'', ''fields'' \<mapsto> JStr ''NCTId'']"

definition call_empty_term :: js_object where
  "call_empty_term = [''cond'' \<mapsto> JStr ''flu'', ''term'' \<mapsto> JStr [], ''fields'' \<mapsto> JStr ''NCTId'']"

definition call_empty_fields :: js_object where
  "call_empty_fields = [''cond'' \<mapsto> JStr ''flu'', ''fields'' \<mapsto> JStr []]"

definition call_empty_cond :: js_object where
  "call_empty_cond = [''cond'' \<mapsto> JStr []]"

definition call_no_cond :: js_object where
  "call_no_cond = [''term'' \<mapsto> JStr ''vaccine'']"


section \<open>Percent-encoding can be read back\<close>

lemma below_16_cases:
  "n < 16 \<Longrightarrow> (n::nat) \<in> {0, 1, 2, 3, 4, 5, 6, 7, 8, 9, 10, 11, 12, 13, 14, 15}"
  by simp arith

lemma hex_value_upper_hex: "n < 16 \<Longrightarrow> hex_value (upper_hex n) = Some n"
proof -
  assume "n < 16"
  from below_16_cases[OF this] show ?thesis
    by (elim insertE emptyE) (simp_all add: hex_value_def upper_hex_def)
qed

lemma upper_hex_alnum: "ascii_alphanumeric (upper_hex n)"
proof -
  have "n mod 16 < 16" by simp
  from below_16_cases[OF this] show ?thesis
    unfolding upper_hex_def
    by (elim insertE emptyE) (simp_all add: ascii_alphanumeric_def)
qed

lemma alnum_not_special:
  "ascii_alphanumeric c \<Longrightarrow>
     c \<noteq> CHR ''&'' \<and> c \<noteq> CHR ''='' \<and> c \<noteq> CHR ''#'' \<and> c \<noteq> CHR ''?'' \<and> c \<noteq> CHR ''/'' \<and>
     c \<noteq> CHR ''%'' \<and> c \<noteq> CHR ''+'' \<and> c \<noteq> CHR '' ''"
  unfolding ascii_alphanumeric_def by (elim rev_mp) simp

lemma percent_decode_plain:
  "c \<noteq> CHR ''%'' \<Longrightarrow> percent_decode (c # cs) = c # percent_decode cs"
  by (cases "c # cs" rule: percent_decode.cases) auto

lemma of_char_lt_256: "(of_char c :: nat) < 256"
  by (cases c) simp

lemma percent_decode_escape:
  "percent_decode (percent_encode_byte c @ cs) = c # percent_decode cs"
proof -
  have d: "(of_char c :: nat) div 16 < 16" using of_char_lt_256[of c] by arith
  have m: "(of_char c :: nat) mod 16 < 16" by simp
  have "char_of (16 * ((of_char c :: nat) div 16) + of_char c mod 16) = c"
    by simp
  then show ?thesis
    by (simp add: percent_encode_byte_def hex_value_upper_hex[OF d] hex_value_upper_hex[OF m])
qed

lemma percent_encode_byte_chars:
  "c' \<in> set (percent_encode_byte c) \<Longrightarrow> ascii_alphanumeric c' \<or> c' = CHR ''%''"
  using upper_hex_alnum by (auto simp: percent_encode_byte_def)

lemma urlencoded_byte_chars:
  "c' \<in> set (urlencoded_byte c) \<Longrightarrow> ascii_alphanumeric c' \<or> c' \<in> set ''*-._+%''"
  using percent_encode_byte_chars[of c' c]
  by (auto simp: urlencoded_byte_def split: if_splits)

lemma urlencoded_string_chars:
  "c \<in> set (urlencoded_string s) \<Longrightarrow> ascii_alphanumeric c \<or> c \<in> set ''*-._+%''"
  by (auto simp: urlencoded_string_def dest: urlencoded_byte_chars)

lemma urlencoded_string_not_special:
  "c \<in> set (urlencoded_string s) \<Longrightarrow> c \<noteq> CHR ''&'' \<and> c \<noteq> CHR ''='' \<and> c \<noteq> CHR ''#''"
  using urlencoded_string_chars[of c s] alnum_not_special[of c] by auto

lemma plus_to_space_append: "plus_to_space (xs @ ys) = plus_to_space xs @ plus_to_space ys"
  by (simp add: plus_to_space_def)

lemma upper_hex_not_plus: "upper_hex n \<noteq> CHR ''+''"
  using upper_hex_alnum[of n] alnum_not_special by blast

lemma plus_to_space_escape: "plus_to_space (percent_encode_byte c) = percent_encode_byte c"
  by (simp add: plus_to_space_def percent_encode_byte_def upper_hex_not_plus)

lemma decode_byte:
  "percent_decode (plus_to_space (urlencoded_byte c) @ cs) = c # percent_decode cs"
proof (cases "c = CHR '' ''")
  case True
  then show ?thesis
    by (simp add: urlencoded_byte_def plus_to_space_def percent_decode_plain)
next
  case sp: False
  show ?thesis
  proof (cases "ascii_alphanumeric c \<or> c \<in> set ''*-._''")
    case True
    then have "c \<noteq> CHR ''%''" "c \<noteq> CHR ''+''"
      using alnum_not_special[of c] by auto
    with True sp show ?thesis
      by (simp add: urlencoded_byte_def plus_to_space_def percent_decode_plain)
  next
    case False
    with sp show ?thesis
      by (simp add: urlencoded_byte_def plus_to_space_escape percent_decode_escape)
  qed
qed

lemma decode_string_append:
  "percent_decode (plus_to_space (urlencoded_string s) @ cs) = s @ percent_decode cs"
proof (induction s)
  case Nil
  then show ?case by (simp add: urlencoded_string_def plus_to_space_def)
next
  case (Cons c s)
  have "urlencoded_string (c # s) = urlencoded_byte c @ urlencoded_string s"
    by (simp add: urlencoded_string_def)
  then show ?case
    using Cons.IH by (simp add: plus_to_space_append decode_byte)
qed

lemma urlencoded_roundtrip: "urlencoded_decode (urlencoded_string s) = s"
  using decode_string_append[of s "[]"] by (simp add: urlencoded_decode_def)

lemma split_on_plain: "d \<notin> set w \<Longrightarrow> split_on d (w @ d # rest) = w # split_on d rest"
  by (induction w) auto

lemma split_on_last: "d \<notin> set w \<Longrightarrow> split_on d w = [w]"
  by (induction w) auto

lemma split_on_join:
  "ws \<noteq> [] \<Longrightarrow> \<forall>w \<in> set ws. d \<notin> set w \<Longrightarrow> split_on d (join [d] ws) = ws"
proof (induction "[d]" ws rule: join.induct)
  case 1
  then show ?case by simp
next
  case (2 x)
  then show ?case by (simp add: split_on_last)
next
  case (3 x y ys)
  then show ?case by (simp add: split_on_plain)
qed

lemma takeWhile_until: "d \<notin> set w \<Longrightarrow> takeWhile (\<lambda>c. c \<noteq> d) (w @ d # r) = w"
  by (induction w) auto

lemma dropWhile_until: "d \<notin> set w \<Longrightarrow> dropWhile (\<lambda>c. c \<noteq> d) (w @ d # r) = d # r"
  by (induction w) auto

lemma pair_piece_no_amp: "CHR ''&'' \<notin> set (urlencoded_pair p)"
  using urlencoded_string_not_special by (auto simp: urlencoded_pair_def)

lemma pair_piece_no_hash: "CHR ''#'' \<notin> set (urlencoded_pair p)"
  using urlencoded_string_not_special by (auto simp: urlencoded_pair_def)

lemma pair_piece_nonempty: "urlencoded_pair p \<noteq> []"
  by (simp add: urlencoded_pair_def)

lemma no_eq_in_encoded: "CHR ''='' \<notin> set (urlencoded_string s)"
  using urlencoded_string_not_special by blast

lemma pair_piece_name:
  "takeWhile (\<lambda>c. c \<noteq> CHR ''='') (urlencoded_pair p) = urlencoded_string (fst p)"
  using takeWhile_until[OF no_eq_in_encoded, of "fst p"]
  by (simp add: urlencoded_pair_def)

lemma pair_piece_value:
  "drop 1 (dropWhile (\<lambda>c. c \<noteq> CHR ''='') (urlencoded_pair p)) = urlencoded_string (snd p)"
  using dropWhile_until[OF no_eq_in_encoded, of "fst p"]
  by (simp add: urlencoded_pair_def)

lemma pair_piece_value':
  "drop (Suc 0) (dropWhile (\<lambda>c. c \<noteq> CHR ''='') (urlencoded_pair p)) = urlencoded_string (snd p)"
  using pair_piece_value[of p] by simp

lemma parse_serialize: "urlencoded_parse (urlencoded_serialize ps) = ps"
proof (cases "ps = []")
  case True
  then show ?thesis by (simp add: urlencoded_serialize_def urlencoded_parse_def)
next
  case False
  then have "split_on (CHR ''&'') (join ''&'' (map urlencoded_pair ps)) = map urlencoded_pair ps"
    by (intro split_on_join) (auto simp: pair_piece_no_amp)
  then show ?thesis
    by (simp add: urlencoded_serialize_def urlencoded_parse_def filter_map o_def pair_piece_nonempty
        pair_piece_name pair_piece_value' urlencoded_roundtrip)
qed

lemma join_avoids:
  "c \<notin> set sep \<Longrightarrow> \<forall>w \<in> set ws. c \<notin> set w \<Longrightarrow> c \<notin> set (join sep ws)"
  by (induction sep ws rule: join.induct) auto

lemma serialize_no_hash: "CHR ''#'' \<notin> set (urlencoded_serialize ps)"
  unfolding urlencoded_serialize_def
  by (rule join_avoids) (auto simp: pair_piece_no_hash)

lemma request_params_toString:
  assumes "CHR ''?'' \<notin> set (url_base u)" "CHR ''#'' \<notin> set (url_base u)"
  shows "request_params (url_toString u) = url_searchParams u"
proof (cases "url_searchParams u = []")
  case True
  have tw: "takeWhile (\<lambda>c. c \<noteq> CHR ''#'') (url_base u) = url_base u"
    using assms by (intro takeWhile_eq_all_conv[THEN iffD2]) auto
  have dw: "dropWhile (\<lambda>c. c \<noteq> CHR ''?'') (url_base u) = []"
    using assms by (intro dropWhile_eq_Nil_conv[THEN iffD2]) auto
  have "request_query (url_base u) = []"
    unfolding request_query_def tw dw by simp
  then show ?thesis
    using True
    by (simp add: request_params_def url_toString_def urlencoded_parse_def)
next
  case False
  let ?q = "urlencoded_serialize (url_searchParams u)"
  have tw: "takeWhile (\<lambda>c. c \<noteq> CHR ''#'') (url_base u @ CHR ''?'' # ?q) = url_base u @ CHR ''?'' # ?q"
    using assms serialize_no_hash[of "url_searchParams u"]
    by (intro takeWhile_eq_all_conv[THEN iffD2]) auto
  have dw: "dropWhile (\<lambda>c. c \<noteq> CHR ''?'') (url_base u @ CHR ''?'' # ?q) = CHR ''?'' # ?q"
    using assms by (simp add: dropWhile_until)
  have "request_query (url_base u @ CHR ''?'' # ?q) = ?q"
    unfolding request_query_def tw dw by simp
  then show ?thesis
    using False by (simp add: request_params_def url_toString_def parse_serialize)
qed

section \<open>The query of the list URLs\<close>

lemma base_of_set [simp]: "url_base (searchParams_set k v u) = url_base u"
  by (simp add: searchParams_set_def)

lemma base_of_set_if_truthy [simp]: "url_base (set_if_truthy k x u) = url_base u"
  by (simp add: set_if_truthy_def split: option.splits)

lemma params_of_set_fresh:
  "k \<notin> fst ` set (url_searchParams u) \<Longrightarrow>
     url_searchParams (searchParams_set k v u) = url_searchParams u @ [(k, v)]"
  by (simp add: searchParams_set_def params_set_def)

lemma params_of_set_if_truthy_fresh:
  "k \<notin> fst ` set (url_searchParams u) \<Longrightarrow>
     url_searchParams (set_if_truthy k x u) = url_searchParams u @ truthy_pair k x"
  by (simp add: set_if_truthy_def truthy_pair_def params_of_set_fresh split: option.splits)

lemma keys_of_truthy_pair [simp]: "k' \<noteq> k \<Longrightarrow> k' \<notin> fst ` set (truthy_pair k x)"
  by (auto simp: truthy_pair_def split: option.splits if_splits)

lemma list_studies_params:
  "url_searchParams (list_studies_url a) =
     [(''query.cond'', ls_cond a)] @
     truthy_pair ''query.term'' (ls_term a) @
     truthy_pair ''query.locn'' (ls_locn a) @
     truthy_pair ''filter.overallStatus'' (ls_overallStatus a) @
     truthy_pair ''fields'' (ls_fields a) @
     truthy_pair ''pageToken'' (ls_pageToken a) @
     [(''pageSize'', js_String (or_default 20 (ls_pageSize a))),
      (''format'', or_default ''json'' (ls_format a)),
      (''countTotal'', or_default ''true'' (ls_countTotal a))]"
  unfolding list_studies_url_def Let_def
  by (simp add: params_of_set_fresh params_of_set_if_truthy_fresh new_URL_def image_Un)

lemma specific_fields_params:
  "url_searchParams (specific_fields_in_study_url a) =
     [(''query.cond'', sf_cond a), (''fields'', sf_fields a)] @
     truthy_pair ''query.term'' (sf_term a) @
     truthy_pair ''query.locn'' (sf_locn a) @
     truthy_pair ''filter.overallStatus'' (sf_overallStatus a) @
     truthy_pair ''pageToken'' (sf_pageToken a) @
     [(''pageSize'', js_String (or_default 20 (sf_pageSize a))),
      (''format'', or_default ''json'' (sf_format a)),
      (''countTotal'', or_default ''true'' (sf_countTotal a))]"
  unfolding specific_fields_in_study_url_def Let_def
  by (simp add: params_of_set_fresh params_of_set_if_truthy_fresh new_URL_def image_Un)

lemma list_studies_base: "url_base (list_studies_url a) = BASE_URL @ ''/studies''"
  unfolding list_studies_url_def Let_def by (simp add: new_URL_def)

lemma specific_fields_base: "url_base (specific_fields_in_study_url a) = BASE_URL @ ''/studies''"
  unfolding specific_fields_in_study_url_def Let_def by (simp add: new_URL_def)

lemma list_studies_request_params:
  "request_params (url_toString (list_studies_url a)) = url_searchParams (list_studies_url a)"
  by (rule request_params_toString) (simp_all add: list_studies_base BASE_URL_def)

lemma specific_fields_request_params:
  "request_params (url_toString (specific_fields_in_study_url a)) =
     url_searchParams (specific_fields_in_study_url a)"
  by (rule request_params_toString) (simp_all add: specific_fields_base BASE_URL_def)

section \<open>What the schemas accept\<close>

lemma z_both_Inr_iff: "z_both f x = Inr y \<longleftrightarrow> (\<exists>g v. f = Inr g \<and> x = Inr v \<and> y = g v)"
  by (cases f; cases x) auto

lemma z_field_Inr_iff: "z_field raw name schema = Inr v \<longleftrightarrow> schema (raw name) = Inr v"
  by (simp add: z_field_def split: sum.splits)

lemma z_string_Inr_iff: "z_string v = Inr s \<longleftrightarrow> v = Some (JStr s)"
  by (auto simp: z_string_def split: option.splits json.splits)

lemma z_optional_string_Inr_iff:
  "z_optional z_string v = Inr x \<longleftrightarrow> (v = None \<and> x = None) \<or> (\<exists>s. v = Some (JStr s) \<and> x = Some s)"
  by (auto simp: z_optional_def z_string_def split: option.splits sum.splits json.splits)

lemma z_default_string_Inr_iff:
  "z_default (z_optional z_string) (JStr d) v = Inr x \<longleftrightarrow>
     (v = None \<and> x = Some d) \<or> (\<exists>s. v = Some (JStr s) \<and> x = Some s)"
  by (auto simp: z_default_def z_optional_string_Inr_iff split: option.splits)

lemma z_default_number_Inr_iff:
  "z_default (z_optional z_number) (JNum d) v = Inr x \<longleftrightarrow>
     (v = None \<and> x = Some d) \<or> (\<exists>n. v = Some (JNum n) \<and> x = Some n)"
  by (auto simp: z_default_def z_optional_def z_number_def split: option.splits sum.splits json.splits)

lemma list_studies_schema_Inr_iff:
  "list_studies_schema raw = Inr a \<longleftrightarrow>
     z_string (raw ''cond'') = Inr (ls_cond a) \<and>
     z_optional z_string (raw ''term'') = Inr (ls_term a) \<and>
     z_optional z_string (raw ''locn'') = Inr (ls_locn a) \<and>
     z_optional z_string (raw ''overallStatus'') = Inr (ls_overallStatus a) \<and>
     z_default (z_optional z_number) (JNum 20) (raw ''pageSize'') = Inr (ls_pageSize a) \<and>
     z_default (z_optional z_string) (JStr ''json'') (raw ''format'') = Inr (ls_format a) \<and>
     z_optional z_string (raw ''fields'') = Inr (ls_fields a) \<and>
     z_default (z_optional z_string) (JStr ''true'') (raw ''countTotal'') = Inr (ls_countTotal a) \<and>
     z_optional z_string (raw ''pageToken'') = Inr (ls_pageToken a)"
  unfolding list_studies_schema_def z_both_Inr_iff z_field_Inr_iff
  by (cases a) auto

lemma specific_fields_schema_Inr_iff:
  "specific_fields_in_study_schema raw = Inr a \<longleftrightarrow>
     z_string (raw ''cond'') = Inr (sf_cond a) \<and>
     z_string (raw ''fields'') = Inr (sf_fields a) \<and>
     z_optional z_string (raw ''term'') = Inr (sf_term a) \<and>
     z_optional z_string (raw ''locn'') = Inr (sf_locn a) \<and>
     z_optional z_string (raw ''overallStatus'') = Inr (sf_overallStatus a) \<and>
     z_default (z_optional z_number) (JNum 20) (raw ''pageSize'') = Inr (sf_pageSize a) \<and>
     z_default (z_optional z_string) (JStr ''json'') (raw ''format'') = Inr (sf_format a) \<and>
     z_default (z_optional z_string) (JStr ''true'') (raw ''countTotal'') = Inr (sf_countTotal a) \<and>
     z_optional z_string (raw ''pageToken'') = Inr (sf_pageToken a)"
  unfolding specific_fields_in_study_schema_def z_both_Inr_iff z_field_Inr_iff
  by (cases a) auto


section \<open>What a registered tool does\<close>

lemma server_tool_rejects:
  "schema raw = Inl issues \<Longrightarrow> server_tool schema handler fetch raw = ([], InvalidParams issues)"
  by (simp add: server_tool_def)

lemma server_tool_runs:
  "schema raw = Inr a \<Longrightarrow>
     server_tool schema handler fetch raw =
       (fst (handler fetch a),
        case snd (handler fetch a) of Inl e \<Rightarrow> HandlerThrew e | Inr r \<Rightarrow> HandlerReturned r)"
  by (simp add: server_tool_def split: prod.splits sum.splits)

lemma tool_list_studies_runs:
  "list_studies_schema raw = Inr a \<Longrightarrow>
     tool_list_studies fetch raw =
       ([url_toString (list_studies_url a)], relayed fetch (url_toString (list_studies_url a)))"
  by (simp add: tool_list_studies_def server_tool_runs list_studies_def Let_def relayed_def
      split: sum.splits)

lemma tool_specific_fields_runs:
  "specific_fields_in_study_schema raw = Inr a \<Longrightarrow>
     tool_specific_fields_in_study fetch raw =
       ([url_toString (specific_fields_in_study_url a)],
        relayed fetch (url_toString (specific_fields_in_study_url a)))"
  by (simp add: tool_specific_fields_in_study_def server_tool_runs specific_fields_in_study_def
      Let_def relayed_def split: sum.splits)

lemma tool_get_study_runs:
  "get_study_schema raw = Inr a \<Longrightarrow>
     tool_get_study fetch raw = ([get_study_url a], relayed fetch (get_study_url a))"
  by (simp add: tool_get_study_def server_tool_runs get_study_def Let_def relayed_def
      split: sum.splits)

lemma any_tool_outcome:
  assumes "tool \<in> {tool_list_studies, tool_get_study, tool_specific_fields_in_study}"
    and "tool fetch raw = ([u], out)"
  shows "out = relayed fetch u"
proof -
  consider (ls) "tool = tool_list_studies" | (gs) "tool = tool_get_study"
    | (sf) "tool = tool_specific_fields_in_study"
    using assms(1) by auto
  then show ?thesis
  proof cases
    case ls
    show ?thesis
    proof (cases "list_studies_schema raw")
      case (Inl issues)
      with assms(2) ls show ?thesis
        by (simp add: tool_list_studies_def server_tool_rejects)
    next
      case (Inr a)
      with assms(2) ls show ?thesis
        by (auto simp: tool_list_studies_runs)
    qed
  next
    case gs
    show ?thesis
    proof (cases "get_study_schema raw")
      case (Inl issues)
      with assms(2) gs show ?thesis
        by (simp add: tool_get_study_def server_tool_rejects)
    next
      case (Inr a)
      with assms(2) gs show ?thesis
        by (auto simp: tool_get_study_runs)
    qed
  next
    case sf
    show ?thesis
    proof (cases "specific_fields_in_study_schema raw")
      case (Inl issues)
      with assms(2) sf show ?thesis
        by (simp add: tool_specific_fields_in_study_def server_tool_rejects)
    next
      case (Inr a)
      with assms(2) sf show ?thesis
        by (auto simp: tool_specific_fields_runs)
    qed
  qed
qed

section \<open>The identifier in the study URL\<close>







section \<open>Looking a key up in the query\<close>

lemma map_of_truthy_pair:
  "map_of (truthy_pair k x) k' =
     (if k' = k then (case x of None \<Rightarrow> None | Some s \<Rightarrow> if s = [] then None else Some s) else None)"
  by (simp add: truthy_pair_def split: option.splits)

lemma list_studies_lookup:
  "map_of (request_params (url_toString (list_studies_url a))) k =
     (if k = ''query.cond'' then Some (ls_cond a)
      else if k = ''query.term'' then map_of (truthy_pair k (ls_term a)) k
      else if k = ''query.locn'' then map_of (truthy_pair k (ls_locn a)) k
      else if k = ''filter.overallStatus'' then map_of (truthy_pair k (ls_overallStatus a)) k
      else if k = ''fields'' then map_of (truthy_pair k (ls_fields a)) k
      else if k = ''pageToken'' then map_of (truthy_pair k (ls_pageToken a)) k
      else if k = ''pageSize'' then Some (js_String (or_default 20 (ls_pageSize a)))
      else if k = ''format'' then Some (or_default ''json'' (ls_format a))
      else if k = ''countTotal'' then Some (or_default ''true'' (ls_countTotal a))
      else None)"
  unfolding list_studies_request_params list_studies_params
  by (simp add: map_of_truthy_pair map_add_def split: option.splits)

lemma specific_fields_lookup:
  "map_of (request_params (url_toString (specific_fields_in_study_url a))) k =
     (if k = ''query.cond'' then Some (sf_cond a)
      else if k = ''fields'' then Some (sf_fields a)
      else if k = ''query.term'' then map_of (truthy_pair k (sf_term a)) k
      else if k = ''query.locn'' then map_of (truthy_pair k (sf_locn a)) k
      else if k = ''filter.overallStatus'' then map_of (truthy_pair k (sf_overallStatus a)) k
      else if k = ''pageToken'' then map_of (truthy_pair k (sf_pageToken a)) k
      else if k = ''pageSize'' then Some (js_String (or_default 20 (sf_pageSize a)))
      else if k = ''format'' then Some (or_default ''json'' (sf_format a))
      else if k = ''countTotal'' then Some (or_default ''true'' (sf_countTotal a))
      else None)"
  unfolding specific_fields_request_params specific_fields_params
  by (simp add: map_of_truthy_pair map_add_def split: option.splits)

lemma twenty: "js_String 20 = ''20''"
  by code_simp

section \<open>Optional parameters, from the arguments to the query\<close>

lemma tool_list_studies_requests:
  assumes "u \<in> set (fst (tool_list_studies fetch raw))"
  shows "\<exists>a. list_studies_schema raw = Inr a \<and> u = url_toString (list_studies_url a)"
proof (cases "list_studies_schema raw")
  case (Inl issues)
  with assms show ?thesis
    by (simp add: tool_list_studies_def server_tool_rejects)
next
  case (Inr a)
  with assms show ?thesis
    by (simp add: tool_list_studies_runs[OF Inr])
qed

lemma tool_specific_fields_requests:
  assumes "u \<in> set (fst (tool_specific_fields_in_study fetch raw))"
  shows "\<exists>a. specific_fields_in_study_schema raw = Inr a \<and>
             u = url_toString (specific_fields_in_study_url a)"
proof (cases "specific_fields_in_study_schema raw")
  case (Inl issues)
  with assms show ?thesis
    by (simp add: tool_specific_fields_in_study_def server_tool_rejects)
next
  case (Inr a)
  with assms show ?thesis
    by (simp add: tool_specific_fields_runs[OF Inr])
qed

lemma optional_string_cases:
  assumes "z_optional z_string v = Inr x"
    and "m = (case x of None \<Rightarrow> None | Some s \<Rightarrow> if s = [] then None else Some s)"
  shows "(v = None \<and> m = None) \<or> (\<exists>s. v = Some (JStr s) \<and> m = (if s = [] then None else Some s))"
proof -
  from assms(1) consider "v = None \<and> x = None" | s where "v = Some (JStr s) \<and> x = Some s"
    unfolding z_optional_string_Inr_iff by blast
  then show ?thesis
  proof cases
    case 1
    then show ?thesis unfolding assms(2) by simp
  next
    case 2
    then show ?thesis unfolding assms(2) by simp
  qed
qed

lemma list_studies_optional_lookup:
  assumes "list_studies_schema raw = Inr a" and "(p, k) \<in> set list_studies_optional"
  shows "(raw p = None \<and> map_of (request_params (url_toString (list_studies_url a))) k = None) \<or>
         (\<exists>s. raw p = Some (JStr s) \<and>
            map_of (request_params (url_toString (list_studies_url a))) k =
              (if s = [] then None else Some s))"
proof -
  let ?m = "map_of (request_params (url_toString (list_studies_url a)))"
  have opt: "z_optional z_string (raw ''term'') = Inr (ls_term a)"
    "z_optional z_string (raw ''locn'') = Inr (ls_locn a)"
    "z_optional z_string (raw ''overallStatus'') = Inr (ls_overallStatus a)"
    "z_optional z_string (raw ''fields'') = Inr (ls_fields a)"
    "z_optional z_string (raw ''pageToken'') = Inr (ls_pageToken a)"
    using assms(1) by (simp_all add: list_studies_schema_Inr_iff)
  have look: "?m ''query.term'' = (case ls_term a of None \<Rightarrow> None | Some s \<Rightarrow> if s = [] then None else Some s)"
    "?m ''query.locn'' = (case ls_locn a of None \<Rightarrow> None | Some s \<Rightarrow> if s = [] then None else Some s)"
    "?m ''filter.overallStatus'' = (case ls_overallStatus a of None \<Rightarrow> None | Some s \<Rightarrow> if s = [] then None else Some s)"
    "?m ''fields'' = (case ls_fields a of None \<Rightarrow> None | Some s \<Rightarrow> if s = [] then None else Some s)"
    "?m ''pageToken'' = (case ls_pageToken a of None \<Rightarrow> None | Some s \<Rightarrow> if s = [] then None else Some s)"
    by (simp_all add: list_studies_lookup map_of_truthy_pair)
  from assms(2) have "(p, k) = (''term'', ''query.term'') \<or> (p, k) = (''locn'', ''query.locn'') \<or>
      (p, k) = (''overallStatus'', ''filter.overallStatus'') \<or> (p, k) = (''fields'', ''fields'') \<or>
      (p, k) = (''pageToken'', ''pageToken'')"
    by (simp add: list_studies_optional_def)
  then show ?thesis
  proof (elim disjE)
    assume "(p, k) = (''term'', ''query.term'')"
    then have "p = ''term''" "k = ''query.term''" by simp_all
    with optional_string_cases[OF opt(1) look(1)] show ?thesis by simp
  next
    assume "(p, k) = (''locn'', ''query.locn'')"
    then have "p = ''locn''" "k = ''query.locn''" by simp_all
    with optional_string_cases[OF opt(2) look(2)] show ?thesis by simp
  next
    assume "(p, k) = (''overallStatus'', ''filter.overallStatus'')"
    then have "p = ''overallStatus''" "k = ''filter.overallStatus''" by simp_all
    with optional_string_cases[OF opt(3) look(3)] show ?thesis by simp
  next
    assume "(p, k) = (''fields'', ''fields'')"
    then have "p = ''fields''" "k = ''fields''" by simp_all
    with optional_string_cases[OF opt(4) look(4)] show ?thesis by simp
  next
    assume "(p, k) = (''pageToken'', ''pageToken'')"
    then have "p = ''pageToken''" "k = ''pageToken''" by simp_all
    with optional_string_cases[OF opt(5) look(5)] show ?thesis by simp
  qed
qed

lemma specific_fields_optional_lookup:
  assumes "specific_fields_in_study_schema raw = Inr a" and "(p, k) \<in> set specific_fields_optional"
  shows "(raw p = None \<and>
            map_of (request_params (url_toString (specific_fields_in_study_url a))) k = None) \<or>
         (\<exists>s. raw p = Some (JStr s) \<and>
            map_of (request_params (url_toString (specific_fields_in_study_url a))) k =
              (if s = [] then None else Some s))"
proof -
  let ?m = "map_of (request_params (url_toString (specific_fields_in_study_url a)))"
  have opt: "z_optional z_string (raw ''term'') = Inr (sf_term a)"
    "z_optional z_string (raw ''locn'') = Inr (sf_locn a)"
    "z_optional z_string (raw ''overallStatus'') = Inr (sf_overallStatus a)"
    "z_optional z_string (raw ''pageToken'') = Inr (sf_pageToken a)"
    using assms(1) by (simp_all add: specific_fields_schema_Inr_iff)
  have look: "?m ''query.term'' = (case sf_term a of None \<Rightarrow> None | Some s \<Rightarrow> if s = [] then None else Some s)"
    "?m ''query.locn'' = (case sf_locn a of None \<Rightarrow> None | Some s \<Rightarrow> if s = [] then None else Some s)"
    "?m ''filter.overallStatus'' = (case sf_overallStatus a of None \<Rightarrow> None | Some s \<Rightarrow> if s = [] then None else Some s)"
    "?m ''pageToken'' = (case sf_pageToken a of None \<Rightarrow> None | Some s \<Rightarrow> if s = [] then None else Some s)"
    by (simp_all add: specific_fields_lookup map_of_truthy_pair)
  from assms(2) have "(p, k) = (''term'', ''query.term'') \<or> (p, k) = (''locn'', ''query.locn'') \<or>
      (p, k) = (''overallStatus'', ''filter.overallStatus'') \<or>
      (p, k) = (''pageToken'', ''pageToken'')"
    by (simp add: specific_fields_optional_def)
  then show ?thesis
    using optional_string_cases[OF opt(1) look(1)] optional_string_cases[OF opt(2) look(2)]
      optional_string_cases[OF opt(3) look(3)] optional_string_cases[OF opt(4) look(4)]
    by (elim disjE) (simp_all only: prod.inject, blast+)
qed

lemma optional_lookup:
  assumes "(tool, optional) \<in>
      {(tool_list_studies, list_studies_optional),
       (tool_specific_fields_in_study, specific_fields_optional)}"
    and "(p, k) \<in> set optional"
    and "u \<in> set (fst (tool fetch raw))"
  shows "(raw p = None \<and> map_of (request_params u) k = None) \<or>
         (\<exists>s. raw p = Some (JStr s) \<and>
            map_of (request_params u) k = (if s = [] then None else Some s))"
proof -
  consider "tool = tool_list_studies \<and> optional = list_studies_optional"
    | "tool = tool_specific_fields_in_study \<and> optional = specific_fields_optional"
    using assms(1) by auto
  then show ?thesis
  proof cases
    case 1
    with assms(3) obtain a where "list_studies_schema raw = Inr a"
      "u = url_toString (list_studies_url a)"
      using tool_list_studies_requests by blast
    with 1 assms(2) show ?thesis
      using list_studies_optional_lookup[of raw a p k] by simp
  next
    case 2
    with assms(3) obtain a where "specific_fields_in_study_schema raw = Inr a"
      "u = url_toString (specific_fields_in_study_url a)"
      using tool_specific_fields_requests by blast
    with 2 assms(2) show ?thesis
      using specific_fields_optional_lookup[of raw a p k] by simp
  qed
qed

section \<open>An empty optional parameter\<close>

lemma empty_optional_string: "z_optional z_string (Some (JStr [])) = Inr x \<longleftrightarrow> x = Some []"
  by (auto simp: z_optional_string_Inr_iff)

lemma absent_optional_string: "z_optional z_string None = Inr x \<longleftrightarrow> x = None"
  by (auto simp: z_optional_string_Inr_iff)

lemma list_studies_drop_empty:
  assumes "list_studies_schema raw = Inr a"
    and "(p, k) \<in> set list_studies_optional"
    and "raw p = Some (JStr [])"
  shows "\<exists>a'. list_studies_schema (raw(p := None)) = Inr a' \<and>
              list_studies_url a' = list_studies_url a"
proof -
  note fields = assms(1)[unfolded list_studies_schema_Inr_iff]
  from assms(2) have "(p, k) = (''term'', ''query.term'') \<or> (p, k) = (''locn'', ''query.locn'') \<or>
      (p, k) = (''overallStatus'', ''filter.overallStatus'') \<or> (p, k) = (''fields'', ''fields'') \<or>
      (p, k) = (''pageToken'', ''pageToken'')"
    by (simp add: list_studies_optional_def)
  then consider "p = ''term''" | "p = ''locn''" | "p = ''overallStatus''"
    | "p = ''fields''" | "p = ''pageToken''"
    by (elim disjE) simp_all
  then show ?thesis
  proof cases
    case 1
    with assms(3) fields have e: "ls_term a = Some []"
      by (simp add: empty_optional_string)
    have "list_studies_schema (raw(p := None)) = Inr (a\<lparr>ls_term := None\<rparr>)"
      using fields 1 by (simp add: list_studies_schema_Inr_iff absent_optional_string)
    moreover have "list_studies_url (a\<lparr>ls_term := None\<rparr>) = list_studies_url a"
      using e by (simp add: list_studies_url_def set_if_truthy_def)
    ultimately show ?thesis by blast
  next
    case 2
    with assms(3) fields have e: "ls_locn a = Some []"
      by (simp add: empty_optional_string)
    have "list_studies_schema (raw(p := None)) = Inr (a\<lparr>ls_locn := None\<rparr>)"
      using fields 2 by (simp add: list_studies_schema_Inr_iff absent_optional_string)
    moreover have "list_studies_url (a\<lparr>ls_locn := None\<rparr>) = list_studies_url a"
      using e by (simp add: list_studies_url_def set_if_truthy_def)
    ultimately show ?thesis by blast
  next
    case 3
    with assms(3) fields have e: "ls_overallStatus a = Some []"
      by (simp add: empty_optional_string)
    have "list_studies_schema (raw(p := None)) = Inr (a\<lparr>ls_overallStatus := None\<rparr>)"
      using fields 3 by (simp add: list_studies_schema_Inr_iff absent_optional_string)
    moreover have "list_studies_url (a\<lparr>ls_overallStatus := None\<rparr>) = list_studies_url a"
      using e by (simp add: list_studies_url_def set_if_truthy_def)
    ultimately show ?thesis by blast
  next
    case 4
    with assms(3) fields have e: "ls_fields a = Some []"
      by (simp add: empty_optional_string)
    have "list_studies_schema (raw(p := None)) = Inr (a\<lparr>ls_fields := None\<rparr>)"
      using fields 4 by (simp add: list_studies_schema_Inr_iff absent_optional_string)
    moreover have "list_studies_url (a\<lparr>ls_fields := None\<rparr>) = list_studies_url a"
      using e by (simp add: list_studies_url_def set_if_truthy_def)
    ultimately show ?thesis by blast
  next
    case 5
    with assms(3) fields have e: "ls_pageToken a = Some []"
      by (simp add: empty_optional_string)
    have "list_studies_schema (raw(p := None)) = Inr (a\<lparr>ls_pageToken := None\<rparr>)"
      using fields 5 by (simp add: list_studies_schema_Inr_iff absent_optional_string)
    moreover have "list_studies_url (a\<lparr>ls_pageToken := None\<rparr>) = list_studies_url a"
      using e by (simp add: list_studies_url_def set_if_truthy_def)
    ultimately show ?thesis by blast
  qed
qed

lemma specific_fields_drop_empty:
  assumes "specific_fields_in_study_schema raw = Inr a"
    and "(p, k) \<in> set specific_fields_optional"
    and "raw p = Some (JStr [])"
  shows "\<exists>a'. specific_fields_in_study_schema (raw(p := None)) = Inr a' \<and>
              specific_fields_in_study_url a' = specific_fields_in_study_url a"
proof -
  note fields = assms(1)[unfolded specific_fields_schema_Inr_iff]
  from assms(2) have "(p, k) = (''term'', ''query.term'') \<or> (p, k) = (''locn'', ''query.locn'') \<or>
      (p, k) = (''overallStatus'', ''filter.overallStatus'') \<or>
      (p, k) = (''pageToken'', ''pageToken'')"
    by (simp add: specific_fields_optional_def)
  then consider "p = ''term''" | "p = ''locn''" | "p = ''overallStatus''"
    | "p = ''pageToken''"
    by (elim disjE) simp_all
  then show ?thesis
  proof cases
    case 1
    with assms(3) fields have e: "sf_term a = Some []"
      by (simp add: empty_optional_string)
    have "specific_fields_in_study_schema (raw(p := None)) = Inr (a\<lparr>sf_term := None\<rparr>)"
      using fields 1 by (simp add: specific_fields_schema_Inr_iff absent_optional_string)
    moreover have "specific_fields_in_study_url (a\<lparr>sf_term := None\<rparr>) = specific_fields_in_study_url a"
      using e by (simp add: specific_fields_in_study_url_def set_if_truthy_def)
    ultimately show ?thesis by blast
  next
    case 2
    with assms(3) fields have e: "sf_locn a = Some []"
      by (simp add: empty_optional_string)
    have "specific_fields_in_study_schema (raw(p := None)) = Inr (a\<lparr>sf_locn := None\<rparr>)"
      using fields 2 by (simp add: specific_fields_schema_Inr_iff absent_optional_string)
    moreover have "specific_fields_in_study_url (a\<lparr>sf_locn := None\<rparr>) = specific_fields_in_study_url a"
      using e by (simp add: specific_fields_in_study_url_def set_if_truthy_def)
    ultimately show ?thesis by blast
  next
    case 3
    with assms(3) fields have e: "sf_overallStatus a = Some []"
      by (simp add: empty_optional_string)
    have "specific_fields_in_study_schema (raw(p := None)) = Inr (a\<lparr>sf_overallStatus := None\<rparr>)"
      using fields 3 by (simp add: specific_fields_schema_Inr_iff absent_optional_string)
    moreover have "specific_fields_in_study_url (a\<lparr>sf_overallStatus := None\<rparr>) = specific_fields_in_study_url a"
      using e by (simp add: specific_fields_in_study_url_def set_if_truthy_def)
    ultimately show ?thesis by blast
  next
    case 4
    with assms(3) fields have e: "sf_pageToken a = Some []"
      by (simp add: empty_optional_string)
    have "specific_fields_in_study_schema (raw(p := None)) = Inr (a\<lparr>sf_pageToken := None\<rparr>)"
      using fields 4 by (simp add: specific_fields_schema_Inr_iff absent_optional_string)
    moreover have "specific_fields_in_study_url (a\<lparr>sf_pageToken := None\<rparr>) = specific_fields_in_study_url a"
      using e by (simp add: specific_fields_in_study_url_def set_if_truthy_def)
    ultimately show ?thesis by blast
  qed
qed

lemma drop_empty_same_call:
  assumes "(tool, optional) \<in>
      {(tool_list_studies, list_studies_optional),
       (tool_specific_fields_in_study, specific_fields_optional)}"
    and "(p, k) \<in> set optional"
    and "raw p = Some (JStr [])"
    and "u \<in> set (fst (tool fetch raw))"
  shows "tool fetch (raw(p := None)) = tool fetch raw"
proof -
  consider "tool = tool_list_studies \<and> optional = list_studies_optional"
    | "tool = tool_specific_fields_in_study \<and> optional = specific_fields_optional"
    using assms(1) by auto
  then show ?thesis
  proof cases
    case 1
    with assms(4) obtain a where a: "list_studies_schema raw = Inr a"
      using tool_list_studies_requests by blast
    with 1 assms(2,3) obtain a' where a': "list_studies_schema (raw(p := None)) = Inr a'"
      "list_studies_url a' = list_studies_url a"
      using list_studies_drop_empty[of raw a p k] by auto
    show ?thesis
      using 1 by (simp add: tool_list_studies_runs[OF a] tool_list_studies_runs[OF a'(1)] a'(2))
  next
    case 2
    with assms(4) obtain a where a: "specific_fields_in_study_schema raw = Inr a"
      using tool_specific_fields_requests by blast
    with 2 assms(2,3) obtain a' where a': "specific_fields_in_study_schema (raw(p := None)) = Inr a'"
      "specific_fields_in_study_url a' = specific_fields_in_study_url a"
      using specific_fields_drop_empty[of raw a p k] by auto
    show ?thesis
      using 2 by (simp add: tool_specific_fields_runs[OF a] tool_specific_fields_runs[OF a'(1)] a'(2))
  qed
qed

section \<open>A missing required parameter\<close>

lemma z_both_keeps_left:
  "\<exists>issues. f = Inl issues \<and> i \<in> set issues \<Longrightarrow>
     \<exists>issues. z_both f x = Inl issues \<and> i \<in> set issues"
  by (cases f; cases x) auto

lemma z_both_keeps_right:
  "\<exists>issues. x = Inl issues \<and> i \<in> set issues \<Longrightarrow>
     \<exists>issues. z_both f x = Inl issues \<and> i \<in> set issues"
  by (cases f; cases x) auto

lemma z_field_required:
  "raw name = None \<Longrightarrow>
     \<exists>issues. z_field raw name z_string = Inl issues \<and> (name, Required) \<in> set issues"
  by (simp add: z_field_def z_string_def)

lemma list_studies_needs_cond:
  assumes "raw ''cond'' = None"
  shows "\<exists>issues. list_studies_schema raw = Inl issues \<and> (''cond'', Required) \<in> set issues"
  unfolding list_studies_schema_def
  by (intro z_both_keeps_left z_both_keeps_right[where f = "Inr _"] z_field_required assms)

lemma specific_fields_needs_fields:
  assumes "raw ''fields'' = None"
  shows "\<exists>issues. specific_fields_in_study_schema raw = Inl issues \<and>
           (''fields'', Required) \<in> set issues"
  unfolding specific_fields_in_study_schema_def
  by (intro z_both_keeps_left z_both_keeps_right[where x = "z_field raw ''fields'' z_string"]
      z_field_required assms)

section \<open>The two list tools on the same arguments\<close>

lemma toString_endpoint:
  assumes "CHR ''?'' \<notin> set (url_base u)"
  shows "takeWhile (\<lambda>c. c \<noteq> CHR ''?'') (url_toString u) = url_base u"
proof (cases "url_searchParams u = []")
  case True
  with assms show ?thesis
    by (auto simp: url_toString_def)
next
  case False
  with assms show ?thesis
    by (simp add: url_toString_def takeWhile_until)
qed

lemma both_schemas_agree:
  assumes "list_studies_schema raw = Inr a"
    and "specific_fields_in_study_schema raw = Inr b"
  shows "sf_cond b = ls_cond a \<and> ls_fields a = Some (sf_fields b) \<and>
         raw ''fields'' = Some (JStr (sf_fields b)) \<and>
         sf_term b = ls_term a \<and> sf_locn b = ls_locn a \<and>
         sf_overallStatus b = ls_overallStatus a \<and> sf_pageToken b = ls_pageToken a \<and>
         sf_pageSize b = ls_pageSize a \<and> sf_format b = ls_format a \<and>
         sf_countTotal b = ls_countTotal a"
proof -
  note A = assms(1)[unfolded list_studies_schema_Inr_iff]
  note B = assms(2)[unfolded specific_fields_schema_Inr_iff]
  have f: "raw ''fields'' = Some (JStr (sf_fields b))"
    using B by (simp add: z_string_Inr_iff)
  have "ls_fields a = Some (sf_fields b)"
    using A unfolding f by (simp add: z_optional_string_Inr_iff)
  moreover have "Inr (sf_cond b) = (Inr (ls_cond a) :: zod_issue list + string)"
    using A B by simp
  moreover have "Inr (sf_term b) = (Inr (ls_term a) :: zod_issue list + string option)"
    using A B by simp
  moreover have "Inr (sf_locn b) = (Inr (ls_locn a) :: zod_issue list + string option)"
    using A B by simp
  moreover have "Inr (sf_overallStatus b) = (Inr (ls_overallStatus a) :: zod_issue list + string option)"
    using A B by simp
  moreover have "Inr (sf_pageToken b) = (Inr (ls_pageToken a) :: zod_issue list + string option)"
    using A B by simp
  moreover have "Inr (sf_pageSize b) = (Inr (ls_pageSize a) :: zod_issue list + int option)"
    using A B by simp
  moreover have "Inr (sf_format b) = (Inr (ls_format a) :: zod_issue list + string option)"
    using A B by simp
  moreover have "Inr (sf_countTotal b) = (Inr (ls_countTotal a) :: zod_issue list + string option)"
    using A B by simp
  ultimately show ?thesis
    using f by simp
qed


lemma same_query_pairs:
  assumes "list_studies_schema raw = Inr a"
    and "specific_fields_in_study_schema raw = Inr b"
    and "raw ''fields'' \<noteq> Some (JStr [])"
  shows "set (url_searchParams (list_studies_url a)) =
           set (url_searchParams (specific_fields_in_study_url b)) \<and>
         length (url_searchParams (list_studies_url a)) =
           length (url_searchParams (specific_fields_in_study_url b))"
proof -
  note ab = both_schemas_agree[OF assms(1,2)]
  from ab assms(3) have ne: "sf_fields b \<noteq> []" by auto
  have "truthy_pair ''fields'' (ls_fields a) = [(''fields'', sf_fields b)]"
    using ab ne by (simp add: truthy_pair_def)
  then show ?thesis
    unfolding list_studies_params specific_fields_params
    using ab by auto
qed

lemma same_query_lookup:
  assumes "list_studies_schema raw = Inr a"
    and "specific_fields_in_study_schema raw = Inr b"
    and "raw ''fields'' \<noteq> Some (JStr [])"
  shows "map_of (request_params (url_toString (list_studies_url a))) k =
         map_of (request_params (url_toString (specific_fields_in_study_url b))) k"
proof -
  note ab = both_schemas_agree[OF assms(1,2)]
  from ab assms(3) have ne: "sf_fields b \<noteq> []" by auto
  have "map_of (truthy_pair ''fields'' (ls_fields a)) ''fields'' = Some (sf_fields b)"
    using ab ne by (simp add: truthy_pair_def)
  then show ?thesis
    unfolding list_studies_lookup specific_fields_lookup
    using ab by simp
qed

lemma same_url_without_filters:
  assumes "list_studies_schema raw = Inr a"
    and "specific_fields_in_study_schema raw = Inr b"
    and "raw ''fields'' \<noteq> Some (JStr [])"
    and "\<forall>p \<in> {''term'', ''locn'', ''overallStatus''}. raw p = None \<or> raw p = Some (JStr [])"
  shows "url_toString (list_studies_url a) = url_toString (specific_fields_in_study_url b)"
proof -
  note ab = both_schemas_agree[OF assms(1,2)]
  from ab assms(3) have ne: "sf_fields b \<noteq> []" by auto
  have f: "truthy_pair ''fields'' (ls_fields a) = [(''fields'', sf_fields b)]"
    using ab ne by (simp add: truthy_pair_def)
  have opt: "z_optional z_string (raw ''term'') = Inr (ls_term a)"
    "z_optional z_string (raw ''locn'') = Inr (ls_locn a)"
    "z_optional z_string (raw ''overallStatus'') = Inr (ls_overallStatus a)"
    using assms(1) by (simp_all add: list_studies_schema_Inr_iff)
  have given: "raw ''term'' = None \<or> raw ''term'' = Some (JStr [])"
    "raw ''locn'' = None \<or> raw ''locn'' = Some (JStr [])"
    "raw ''overallStatus'' = None \<or> raw ''overallStatus'' = Some (JStr [])"
    using assms(4) by simp_all
  have t: "truthy_pair ''query.term'' (ls_term a) = []"
    using opt(1) given(1) unfolding z_optional_string_Inr_iff
    by (elim disjE conjE exE) (simp_all add: truthy_pair_def)
  have l: "truthy_pair ''query.locn'' (ls_locn a) = []"
    using opt(2) given(2) unfolding z_optional_string_Inr_iff
    by (elim disjE conjE exE) (simp_all add: truthy_pair_def)
  have s: "truthy_pair ''filter.overallStatus'' (ls_overallStatus a) = []"
    using opt(3) given(3) unfolding z_optional_string_Inr_iff
    by (elim disjE conjE exE) (simp_all add: truthy_pair_def)
  have "url_searchParams (list_studies_url a) = url_searchParams (specific_fields_in_study_url b)"
    unfolding list_studies_params specific_fields_params
    using ab f t l s by simp
  then show ?thesis
    by (simp add: url_toString_def list_studies_base specific_fields_base)
qed

section \<open>The claims\<close>





text \<open>
  C8, as the code has it. When the outbound call itself fails (\<open>fetch\<close> rejects), none of
  the three handlers catches the failure: the call ends with that very exception leaving
  the handler, and the handler builds no text result. Whether a caller then sees a text
  is up to the protocol library that hosts the handler.
\<close>

theorem transport_failure_leaves_the_handler:
  assumes "tool \<in> {tool_list_studies, tool_get_study, tool_specific_fields_in_study}"
    and "tool fetch raw = ([u], out)"
    and "fetch u = Inl e"
  shows "out = HandlerThrew e"
  using any_tool_outcome[OF assms(1,2)] assms(3)
  by (simp add: relayed_def)

theorem transport_failure_leaves_the_handler_witness:
  "tool_specific_fields_in_study example_unreachable call_term_fields =
     ([''https://clinicaltrials.gov/api/v2/studies?query.cond=flu&fields=NCTId&query.term=vaccine&pageSize=20&format=json&countTotal=true''],
      HandlerThrew (Exception ''TypeError'' ''fetch failed''))"
proof -
  let ?u = "''https://clinicaltrials.gov/api/v2/studies?query.cond=flu&fields=NCTId&query.term=vaccine&pageSize=20&format=json&countTotal=true''"
  let ?run = "tool_specific_fields_in_study example_unreachable call_term_fields"
  have "fst ?run = [?u]"
    by code_simp
  then have run: "?run = ([?u], snd ?run)"
    by (simp add: prod_eq_iff)
  have "snd ?run = HandlerThrew (Exception ''TypeError'' ''fetch failed'')"
    using run transport_failure_leaves_the_handler[where tool = tool_specific_fields_in_study
        and fetch = example_unreachable and raw = call_term_fields and u = ?u and out = "snd ?run"
        and e = "Exception ''TypeError'' ''fetch failed''"]
    by (simp add: example_unreachable_def)
  with run show ?thesis
    by (simp add: prod_eq_iff)
qed

text \<open>
  The claim as the spec words it (a text result, no exception leaving the handler) fails
  when the transport is down: \<open>list_studies\<close> ends with the transport's exception.
\<close>

theorem transport_failure_counterexample:
  "tool_list_studies example_unreachable call_cond_only =
     ([''https://clinicaltrials.gov/api/v2/studies?query.cond=breast+cancer&pageSize=20&format=json&countTotal=true''],
      HandlerThrew (Exception ''TypeError'' ''fetch failed'')) \<and>
   snd (list_studies example_unreachable
     \<lparr>ls_cond = ''breast cancer'', ls_term = None, ls_locn = None, ls_overallStatus = None,
      ls_pageSize = Some 20, ls_format = Some ''json'', ls_fields = None,
      ls_countTotal = Some ''true'', ls_pageToken = None\<rparr>) =
     Inl (Exception ''TypeError'' ''fetch failed'')"
  by code_simp



text \<open>
  C1. For every call of \<open>list_studies\<close> that the schema accepts, the one URL fetched has
  the query key \<open>query.cond\<close> with the given \<open>cond\<close>, and always has the keys
  \<open>pageSize\<close>, \<open>format\<close> and \<open>countTotal\<close>: with the values \<open>20\<close>, \<open>json\<close> and \<open>true\<close>
  when the parameter was not supplied, and with the supplied value otherwise.
\<close>

theorem list_studies_required_and_defaults:
  assumes "list_studies_schema raw = Inr a"
  shows "\<exists>u. fst (tool_list_studies fetch raw) = [u] \<and>
           raw ''cond'' = Some (JStr (ls_cond a)) \<and>
           map_of (request_params u) ''query.cond'' = Some (ls_cond a) \<and>
           map_of (request_params u) ''pageSize'' \<noteq> None \<and>
           map_of (request_params u) ''format'' \<noteq> None \<and>
           map_of (request_params u) ''countTotal'' \<noteq> None \<and>
           (raw ''pageSize'' = None \<longrightarrow> map_of (request_params u) ''pageSize'' = Some ''20'') \<and>
           (raw ''format'' = None \<longrightarrow> map_of (request_params u) ''format'' = Some ''json'') \<and>
           (raw ''countTotal'' = None \<longrightarrow> map_of (request_params u) ''countTotal'' = Some ''true'') \<and>
           (\<forall>n. raw ''pageSize'' = Some (JNum n) \<longrightarrow>
              map_of (request_params u) ''pageSize'' = Some (js_String n)) \<and>
           (\<forall>s. raw ''format'' = Some (JStr s) \<longrightarrow> map_of (request_params u) ''format'' = Some s) \<and>
           (\<forall>s. raw ''countTotal'' = Some (JStr s) \<longrightarrow>
              map_of (request_params u) ''countTotal'' = Some s)"
proof -
  let ?u = "url_toString (list_studies_url a)"
  have run: "fst (tool_list_studies fetch raw) = [?u]"
    using assms by (simp add: tool_list_studies_runs)
  have cond: "raw ''cond'' = Some (JStr (ls_cond a))"
    using assms by (simp add: list_studies_schema_Inr_iff z_string_Inr_iff)
  have size: "(raw ''pageSize'' = None \<and> ls_pageSize a = Some 20) \<or>
      (\<exists>n. raw ''pageSize'' = Some (JNum n) \<and> ls_pageSize a = Some n)"
    using assms by (simp add: list_studies_schema_Inr_iff z_default_number_Inr_iff)
  have fmt: "(raw ''format'' = None \<and> ls_format a = Some ''json'') \<or>
      (\<exists>s. raw ''format'' = Some (JStr s) \<and> ls_format a = Some s)"
    using assms by (simp add: list_studies_schema_Inr_iff z_default_string_Inr_iff)
  have total: "(raw ''countTotal'' = None \<and> ls_countTotal a = Some ''true'') \<or>
      (\<exists>s. raw ''countTotal'' = Some (JStr s) \<and> ls_countTotal a = Some s)"
    using assms by (simp add: list_studies_schema_Inr_iff z_default_string_Inr_iff)
  have c: "map_of (request_params ?u) ''query.cond'' = Some (ls_cond a)"
    by (simp add: list_studies_lookup)
  have p: "map_of (request_params ?u) ''pageSize'' = Some (js_String (or_default 20 (ls_pageSize a)))"
    by (simp add: list_studies_lookup)
  have f: "map_of (request_params ?u) ''format'' = Some (or_default ''json'' (ls_format a))"
    by (simp add: list_studies_lookup)
  have t: "map_of (request_params ?u) ''countTotal'' = Some (or_default ''true'' (ls_countTotal a))"
    by (simp add: list_studies_lookup)
  from size have p': "(raw ''pageSize'' = None \<longrightarrow> map_of (request_params ?u) ''pageSize'' = Some ''20'') \<and>
      (\<forall>n. raw ''pageSize'' = Some (JNum n) \<longrightarrow> map_of (request_params ?u) ''pageSize'' = Some (js_String n))"
    unfolding p by (auto simp: or_default_def twenty)
  from fmt have f': "(raw ''format'' = None \<longrightarrow> map_of (request_params ?u) ''format'' = Some ''json'') \<and>
      (\<forall>s. raw ''format'' = Some (JStr s) \<longrightarrow> map_of (request_params ?u) ''format'' = Some s)"
    unfolding f by (auto simp: or_default_def)
  from total have t': "(raw ''countTotal'' = None \<longrightarrow> map_of (request_params ?u) ''countTotal'' = Some ''true'') \<and>
      (\<forall>s. raw ''countTotal'' = Some (JStr s) \<longrightarrow> map_of (request_params ?u) ''countTotal'' = Some s)"
    unfolding t by (auto simp: or_default_def)
  show ?thesis
    using run cond c p f t p' f' t' by (intro exI[of _ ?u]) simp
qed

theorem list_studies_required_and_defaults_witness:
  "fst (tool_list_studies example_ok call_cond_only) =
     [''https://clinicaltrials.gov/api/v2/studies?query.cond=breast+cancer&pageSize=20&format=json&countTotal=true''] \<and>
   map_of (request_params
     ''https://clinicaltrials.gov/api/v2/studies?query.cond=breast+cancer&pageSize=20&format=json&countTotal=true'')
     ''query.cond'' = Some ''breast cancer'' \<and>
   map_of (request_params
     ''https://clinicaltrials.gov/api/v2/studies?query.cond=breast+cancer&pageSize=20&format=json&countTotal=true'')
     ''pageSize'' = Some ''20'' \<and>
   map_of (request_params
     ''https://clinicaltrials.gov/api/v2/studies?query.cond=breast+cancer&pageSize=20&format=json&countTotal=true'')
     ''format'' = Some ''json'' \<and>
   map_of (request_params
     ''https://clinicaltrials.gov/api/v2/studies?query.cond=breast+cancer&pageSize=20&format=json&countTotal=true'')
     ''countTotal'' = Some ''true''"
proof -
  let ?u = "''https://clinicaltrials.gov/api/v2/studies?query.cond=breast+cancer&pageSize=20&format=json&countTotal=true''"
  have accepted: "list_studies_schema call_cond_only =
      Inr \<lparr>ls_cond = ''breast cancer'', ls_term = None, ls_locn = None, ls_overallStatus = None,
           ls_pageSize = Some 20, ls_format = Some ''json'', ls_fields = None,
           ls_countTotal = Some ''true'', ls_pageToken = None\<rparr>"
    by code_simp
  have run: "fst (tool_list_studies example_ok call_cond_only) = [?u]"
    by code_simp
  have absent: "call_cond_only ''pageSize'' = None" "call_cond_only ''format'' = None"
    "call_cond_only ''countTotal'' = None"
    by (simp_all add: call_cond_only_def)
  show ?thesis
    using list_studies_required_and_defaults[OF accepted, of example_ok] absent
    unfolding run by auto
qed

text \<open>
  C2, as the code has it. In \<open>list_studies\<close> and \<open>specific_fields_in_study\<close>, an optional
  parameter (\<open>term\<close>, \<open>locn\<close>, \<open>overallStatus\<close>, \<open>pageToken\<close>, and \<open>fields\<close> in
  \<open>list_studies\<close>) that is absent or is the empty string gives no query key in the fetched
  URL; one that is present and not empty gives its key with exactly the given value.
\<close>

theorem optional_parameter_set_only_when_nonempty:
  assumes "(tool, optional) \<in>
      {(tool_list_studies, list_studies_optional),
       (tool_specific_fields_in_study, specific_fields_optional)}"
    and "(p, k) \<in> set optional"
    and "u \<in> set (fst (tool fetch raw))"
  shows "(raw p = None \<or> raw p = Some (JStr []) \<longrightarrow> map_of (request_params u) k = None) \<and>
         (\<forall>s. raw p = Some (JStr s) \<and> s \<noteq> [] \<longrightarrow> map_of (request_params u) k = Some s)"
  using optional_lookup[OF assms] by auto

theorem optional_parameter_set_only_when_nonempty_witness:
  "fst (tool_list_studies example_ok call_term_fields) =
     [''https://clinicaltrials.gov/api/v2/studies?query.cond=flu&query.term=vaccine&fields=NCTId&pageSize=20&format=json&countTotal=true''] \<and>
   call_term_fields ''term'' = Some (JStr ''vaccine'') \<and>
   map_of (request_params
     ''https://clinicaltrials.gov/api/v2/studies?query.cond=flu&query.term=vaccine&fields=NCTId&pageSize=20&format=json&countTotal=true'')
     ''query.term'' = Some ''vaccine'' \<and>
   call_term_fields ''locn'' = None \<and>
   map_of (request_params
     ''https://clinicaltrials.gov/api/v2/studies?query.cond=flu&query.term=vaccine&fields=NCTId&pageSize=20&format=json&countTotal=true'')
     ''query.locn'' = None"
proof -
  let ?u = "''https://clinicaltrials.gov/api/v2/studies?query.cond=flu&query.term=vaccine&fields=NCTId&pageSize=20&format=json&countTotal=true''"
  have run: "fst (tool_list_studies example_ok call_term_fields) = [?u]"
    by code_simp
  have given: "call_term_fields ''term'' = Some (JStr ''vaccine'')" "call_term_fields ''locn'' = None"
    by (simp_all add: call_term_fields_def)
  have "map_of (request_params ?u) ''query.term'' = Some ''vaccine''"
    using optional_parameter_set_only_when_nonempty[where tool = tool_list_studies
        and optional = list_studies_optional and p = "''term''" and k = "''query.term''"
        and u = ?u and fetch = example_ok and raw = call_term_fields] given
    by (simp add: run list_studies_optional_def)
  moreover have "map_of (request_params ?u) ''query.locn'' = None"
    using optional_parameter_set_only_when_nonempty[where tool = tool_list_studies
        and optional = list_studies_optional and p = "''locn''" and k = "''query.locn''"
        and u = ?u and fetch = example_ok and raw = call_term_fields] given
    by (simp add: run list_studies_optional_def)
  ultimately show ?thesis
    using run given by simp
qed

text \<open>
  The claim as the spec words it (every present parameter appears with its value) fails
  for a parameter that is present as the empty string: the call with \<open>term\<close> given as
  \<open>""\<close> fetches a URL without \<open>query.term\<close>.
\<close>

theorem optional_parameter_counterexample:
  "call_empty_term ''term'' = Some (JStr []) \<and>
   fst (tool_list_studies example_ok call_empty_term) =
     [''https://clinicaltrials.gov/api/v2/studies?query.cond=flu&fields=NCTId&pageSize=20&format=json&countTotal=true''] \<and>
   map_of (request_params
     ''https://clinicaltrials.gov/api/v2/studies?query.cond=flu&fields=NCTId&pageSize=20&format=json&countTotal=true'')
     ''query.term'' = None \<and>
   fst (tool_specific_fields_in_study example_ok call_empty_term) =
     [''https://clinicaltrials.gov/api/v2/studies?query.cond=flu&fields=NCTId&pageSize=20&format=json&countTotal=true'']"
  by code_simp

text \<open>
  C10. In \<open>list_studies\<close> and \<open>specific_fields_in_study\<close>, an optional text parameter
  (\<open>term\<close>, \<open>locn\<close>, \<open>overallStatus\<close>, \<open>pageToken\<close>, and \<open>fields\<close> in \<open>list_studies\<close>)
  given as the empty string leaves its query key out of the fetched URL, and the whole
  call goes exactly as the call without that parameter.
\<close>

theorem empty_optional_parameter_is_as_absent:
  assumes "(tool, optional) \<in>
      {(tool_list_studies, list_studies_optional),
       (tool_specific_fields_in_study, specific_fields_optional)}"
    and "(p, k) \<in> set optional"
    and "raw p = Some (JStr [])"
    and "u \<in> set (fst (tool fetch raw))"
  shows "map_of (request_params u) k = None \<and> tool fetch (raw(p := None)) = tool fetch raw"
proof
  show "map_of (request_params u) k = None"
    using optional_lookup[OF assms(1,2,4)] assms(3) by auto
  show "tool fetch (raw(p := None)) = tool fetch raw"
    by (rule drop_empty_same_call[OF assms])
qed

theorem empty_optional_parameter_is_as_absent_witness:
  "call_empty_term ''term'' = Some (JStr []) \<and>
   fst (tool_specific_fields_in_study example_ok call_empty_term) =
     [''https://clinicaltrials.gov/api/v2/studies?query.cond=flu&fields=NCTId&pageSize=20&format=json&countTotal=true''] \<and>
   map_of (request_params
     ''https://clinicaltrials.gov/api/v2/studies?query.cond=flu&fields=NCTId&pageSize=20&format=json&countTotal=true'')
     ''query.term'' = None \<and>
   tool_specific_fields_in_study example_ok (call_empty_term(''term'' := None)) =
     tool_specific_fields_in_study example_ok call_empty_term"
proof -
  let ?u = "''https://clinicaltrials.gov/api/v2/studies?query.cond=flu&fields=NCTId&pageSize=20&format=json&countTotal=true''"
  have run: "fst (tool_specific_fields_in_study example_ok call_empty_term) = [?u]"
    by code_simp
  have given: "call_empty_term ''term'' = Some (JStr [])"
    by (simp add: call_empty_term_def)
  show ?thesis
    using empty_optional_parameter_is_as_absent[where tool = tool_specific_fields_in_study
        and optional = specific_fields_optional and p = "''term''" and k = "''query.term''"
        and u = ?u and fetch = example_ok and raw = call_empty_term] given
    by (simp add: run specific_fields_optional_def)
qed

text \<open>
  C6. Every URL that \<open>specific_fields_in_study\<close> fetches has the query key \<open>fields\<close>,
  carrying the given value; a call without the \<open>fields\<close> parameter is rejected by the
  schema, and nothing is fetched.
\<close>

theorem specific_fields_always_sends_fields:
  "(\<forall>u \<in> set (fst (tool_specific_fields_in_study fetch raw)).
      \<exists>f. raw ''fields'' = Some (JStr f) \<and> map_of (request_params u) ''fields'' = Some f) \<and>
   (raw ''fields'' = None \<longrightarrow>
      (\<exists>issues. tool_specific_fields_in_study fetch raw = ([], InvalidParams issues) \<and>
         (''fields'', Required) \<in> set issues))"
proof (intro conjI ballI impI)
  fix u
  assume "u \<in> set (fst (tool_specific_fields_in_study fetch raw))"
  then obtain a where a: "specific_fields_in_study_schema raw = Inr a"
    and u: "u = url_toString (specific_fields_in_study_url a)"
    using tool_specific_fields_requests by blast
  from a have "raw ''fields'' = Some (JStr (sf_fields a))"
    by (simp add: specific_fields_schema_Inr_iff z_string_Inr_iff)
  moreover have "map_of (request_params u) ''fields'' = Some (sf_fields a)"
    unfolding u by (simp add: specific_fields_lookup)
  ultimately show "\<exists>f. raw ''fields'' = Some (JStr f) \<and> map_of (request_params u) ''fields'' = Some f"
    by blast
next
  assume "raw ''fields'' = None"
  with specific_fields_needs_fields[of raw]
  show "\<exists>issues. tool_specific_fields_in_study fetch raw = ([], InvalidParams issues) \<and>
         (''fields'', Required) \<in> set issues"
    by (auto simp: tool_specific_fields_in_study_def server_tool_rejects)
qed

theorem specific_fields_always_sends_fields_witness:
  "fst (tool_specific_fields_in_study example_ok call_term_fields) =
     [''https://clinicaltrials.gov/api/v2/studies?query.cond=flu&fields=NCTId&query.term=vaccine&pageSize=20&format=json&countTotal=true''] \<and>
   map_of (request_params
     ''https://clinicaltrials.gov/api/v2/studies?query.cond=flu&fields=NCTId&query.term=vaccine&pageSize=20&format=json&countTotal=true'')
     ''fields'' = Some ''NCTId'' \<and>
   call_cond_only ''fields'' = None \<and>
   tool_specific_fields_in_study example_ok call_cond_only =
     ([], InvalidParams [(''fields'', Required)])"
proof -
  let ?u = "''https://clinicaltrials.gov/api/v2/studies?query.cond=flu&fields=NCTId&query.term=vaccine&pageSize=20&format=json&countTotal=true''"
  have run: "fst (tool_specific_fields_in_study example_ok call_term_fields) = [?u]"
    by code_simp
  have given: "call_term_fields ''fields'' = Some (JStr ''NCTId'')"
    by (simp add: call_term_fields_def)
  have "map_of (request_params ?u) ''fields'' = Some ''NCTId''"
    using specific_fields_always_sends_fields[of example_ok call_term_fields] given
    unfolding run by simp
  moreover have missing: "call_cond_only ''fields'' = None"
    by (simp add: call_cond_only_def)
  moreover have "tool_specific_fields_in_study example_ok call_cond_only =
      ([], InvalidParams [(''fields'', Required)])"
    by code_simp
  ultimately show ?thesis
    using run by simp
qed

text \<open>
  C5, as the code has it. For every input that both schemas accept and whose \<open>fields\<close> is
  not the empty string, \<open>specific_fields_in_study\<close> and \<open>list_studies\<close> fetch the same
  endpoint with the same query pairs (the same keys, each with the same value), but not
  always the same URL: \<open>specific_fields_in_study\<close> writes \<open>fields\<close> right after
  \<open>query.cond\<close>, \<open>list_studies\<close> writes it after \<open>filter.overallStatus\<close>. The two URLs are
  the same string when none of \<open>term\<close>, \<open>locn\<close>, \<open>overallStatus\<close> is given non-empty.
\<close>

theorem specific_fields_same_pairs_as_list_studies:
  assumes "list_studies_schema raw = Inr a"
    and "specific_fields_in_study_schema raw = Inr b"
    and "raw ''fields'' \<noteq> Some (JStr [])"
  shows "\<exists>u1 u2.
           fst (tool_list_studies fetch raw) = [u1] \<and>
           fst (tool_specific_fields_in_study fetch raw) = [u2] \<and>
           takeWhile (\<lambda>c. c \<noteq> CHR ''?'') u1 = ''https://clinicaltrials.gov/api/v2/studies'' \<and>
           takeWhile (\<lambda>c. c \<noteq> CHR ''?'') u2 = ''https://clinicaltrials.gov/api/v2/studies'' \<and>
           set (request_params u1) = set (request_params u2) \<and>
           length (request_params u1) = length (request_params u2) \<and>
           map_of (request_params u1) = map_of (request_params u2) \<and>
           ((\<forall>p \<in> {''term'', ''locn'', ''overallStatus''}. raw p = None \<or> raw p = Some (JStr []))
              \<longrightarrow> u1 = u2)"
proof -
  let ?u1 = "url_toString (list_studies_url a)"
  let ?u2 = "url_toString (specific_fields_in_study_url b)"
  have r1: "fst (tool_list_studies fetch raw) = [?u1]"
    using assms(1) by (simp add: tool_list_studies_runs)
  have r2: "fst (tool_specific_fields_in_study fetch raw) = [?u2]"
    using assms(2) by (simp add: tool_specific_fields_runs)
  have e1: "takeWhile (\<lambda>c. c \<noteq> CHR ''?'') ?u1 = ''https://clinicaltrials.gov/api/v2/studies''"
    by (subst toString_endpoint) (simp_all add: list_studies_base BASE_URL_def)
  have e2: "takeWhile (\<lambda>c. c \<noteq> CHR ''?'') ?u2 = ''https://clinicaltrials.gov/api/v2/studies''"
    by (subst toString_endpoint) (simp_all add: specific_fields_base BASE_URL_def)
  have pairs: "set (request_params ?u1) = set (request_params ?u2)"
    "length (request_params ?u1) = length (request_params ?u2)"
    using same_query_pairs[OF assms]
    by (simp_all add: list_studies_request_params specific_fields_request_params)
  have look: "map_of (request_params ?u1) = map_of (request_params ?u2)"
    using same_query_lookup[OF assms] by (rule ext)
  have same: "(\<forall>p \<in> {''term'', ''locn'', ''overallStatus''}. raw p = None \<or> raw p = Some (JStr []))
      \<longrightarrow> ?u1 = ?u2"
    using same_url_without_filters[OF assms] by blast
  show ?thesis
    by (intro exI[of _ ?u1] exI[of _ ?u2] conjI r1 r2 e1 e2 pairs look same)
qed


theorem specific_fields_same_pairs_as_list_studies_witness:
  "fst (tool_list_studies example_ok call_term_fields) =
     [''https://clinicaltrials.gov/api/v2/studies?query.cond=flu&query.term=vaccine&fields=NCTId&pageSize=20&format=json&countTotal=true''] \<and>
   fst (tool_specific_fields_in_study example_ok call_term_fields) =
     [''https://clinicaltrials.gov/api/v2/studies?query.cond=flu&fields=NCTId&query.term=vaccine&pageSize=20&format=json&countTotal=true''] \<and>
   set (request_params
     ''https://clinicaltrials.gov/api/v2/studies?query.cond=flu&query.term=vaccine&fields=NCTId&pageSize=20&format=json&countTotal=true'') =
   set (request_params
     ''https://clinicaltrials.gov/api/v2/studies?query.cond=flu&fields=NCTId&query.term=vaccine&pageSize=20&format=json&countTotal=true'') \<and>
   map_of (request_params
     ''https://clinicaltrials.gov/api/v2/studies?query.cond=flu&query.term=vaccine&fields=NCTId&pageSize=20&format=json&countTotal=true'') =
   map_of (request_params
     ''https://clinicaltrials.gov/api/v2/studies?query.cond=flu&fields=NCTId&query.term=vaccine&pageSize=20&format=json&countTotal=true'')"
proof -
  have a: "list_studies_schema call_term_fields =
      Inr \<lparr>ls_cond = ''flu'', ls_term = Some ''vaccine'', ls_locn = None, ls_overallStatus = None,
           ls_pageSize = Some 20, ls_format = Some ''json'', ls_fields = Some ''NCTId'',
           ls_countTotal = Some ''true'', ls_pageToken = None\<rparr>"
    by code_simp
  have b: "specific_fields_in_study_schema call_term_fields =
      Inr \<lparr>sf_cond = ''flu'', sf_fields = ''NCTId'', sf_term = Some ''vaccine'', sf_locn = None,
           sf_overallStatus = None, sf_pageSize = Some 20, sf_format = Some ''json'',
           sf_countTotal = Some ''true'', sf_pageToken = None\<rparr>"
    by code_simp
  have f: "call_term_fields ''fields'' \<noteq> Some (JStr [])"
    by (simp add: call_term_fields_def)
  have r1: "fst (tool_list_studies example_ok call_term_fields) =
     [''https://clinicaltrials.gov/api/v2/studies?query.cond=flu&query.term=vaccine&fields=NCTId&pageSize=20&format=json&countTotal=true'']"
    by code_simp
  have r2: "fst (tool_specific_fields_in_study example_ok call_term_fields) =
     [''https://clinicaltrials.gov/api/v2/studies?query.cond=flu&fields=NCTId&query.term=vaccine&pageSize=20&format=json&countTotal=true'']"
    by code_simp
  from specific_fields_same_pairs_as_list_studies[OF a b f, of example_ok]
  obtain u1 u2 where
    "fst (tool_list_studies example_ok call_term_fields) = [u1]"
    "fst (tool_specific_fields_in_study example_ok call_term_fields) = [u2]"
    "set (request_params u1) = set (request_params u2)"
    "map_of (request_params u1) = map_of (request_params u2)"
    by blast
  then show ?thesis
    unfolding r1 r2 by simp
qed

text \<open>
  The claim as the spec words it (the same URL) fails in two ways. With a \<open>term\<close>, the
  two tools write \<open>fields\<close> at different places of the query, so the URLs differ. With
  \<open>fields\<close> given as the empty string, \<open>list_studies\<close> leaves the key out and
  \<open>specific_fields_in_study\<close> writes it empty.
\<close>

theorem specific_fields_same_url_counterexample:
  "fst (tool_list_studies example_ok call_term_fields) =
     [''https://clinicaltrials.gov/api/v2/studies?query.cond=flu&query.term=vaccine&fields=NCTId&pageSize=20&format=json&countTotal=true''] \<and>
   fst (tool_specific_fields_in_study example_ok call_term_fields) =
     [''https://clinicaltrials.gov/api/v2/studies?query.cond=flu&fields=NCTId&query.term=vaccine&pageSize=20&format=json&countTotal=true''] \<and>
   fst (tool_list_studies example_ok call_term_fields) \<noteq>
     fst (tool_specific_fields_in_study example_ok call_term_fields) \<and>
   fst (tool_list_studies example_ok call_empty_fields) =
     [''https://clinicaltrials.gov/api/v2/studies?query.cond=flu&pageSize=20&format=json&countTotal=true''] \<and>
   fst (tool_specific_fields_in_study example_ok call_empty_fields) =
     [''https://clinicaltrials.gov/api/v2/studies?query.cond=flu&fields=&pageSize=20&format=json&countTotal=true'']"
proof -
  have r1: "fst (tool_list_studies example_ok call_term_fields) =
     [''https://clinicaltrials.gov/api/v2/studies?query.cond=flu&query.term=vaccine&fields=NCTId&pageSize=20&format=json&countTotal=true'']"
    by code_simp
  have r2: "fst (tool_specific_fields_in_study example_ok call_term_fields) =
     [''https://clinicaltrials.gov/api/v2/studies?query.cond=flu&fields=NCTId&query.term=vaccine&pageSize=20&format=json&countTotal=true'']"
    by code_simp
  have r3: "fst (tool_list_studies example_ok call_empty_fields) =
     [''https://clinicaltrials.gov/api/v2/studies?query.cond=flu&pageSize=20&format=json&countTotal=true'']"
    by code_simp
  have r4: "fst (tool_specific_fields_in_study example_ok call_empty_fields) =
     [''https://clinicaltrials.gov/api/v2/studies?query.cond=flu&fields=&pageSize=20&format=json&countTotal=true'']"
    by code_simp
  show ?thesis
    unfolding r1 r2 r3 r4 by simp
qed

text \<open>
  C9, as the code has it. For \<open>list_studies\<close>, \<open>cond\<close> is required text: a call without it
  is rejected by the schema and nothing is fetched, and every URL fetched carries the given
  \<open>cond\<close> as \<open>query.cond\<close>. The text may be empty: wherever a call with some \<open>cond\<close> goes
  through, the same call with the empty \<open>cond\<close> goes through too, and fetches a URL whose
  \<open>query.cond\<close> is empty.
\<close>

theorem cond_is_required_and_may_be_empty:
  "(raw ''cond'' = None \<longrightarrow>
      (\<exists>issues. tool_list_studies fetch raw = ([], InvalidParams issues) \<and>
         (''cond'', Required) \<in> set issues)) \<and>
   (\<forall>u \<in> set (fst (tool_list_studies fetch raw)).
      \<exists>c. raw ''cond'' = Some (JStr c) \<and> map_of (request_params u) ''query.cond'' = Some c) \<and>
   (fst (tool_list_studies fetch (raw(''cond'' \<mapsto> JStr c))) \<noteq> [] \<longrightarrow>
      (\<exists>u. fst (tool_list_studies fetch (raw(''cond'' \<mapsto> JStr []))) = [u] \<and>
         map_of (request_params u) ''query.cond'' = Some []))"
proof (intro conjI ballI impI)
  assume "raw ''cond'' = None"
  with list_studies_needs_cond[of raw]
  show "\<exists>issues. tool_list_studies fetch raw = ([], InvalidParams issues) \<and>
         (''cond'', Required) \<in> set issues"
    by (auto simp: tool_list_studies_def server_tool_rejects)
next
  fix u
  assume "u \<in> set (fst (tool_list_studies fetch raw))"
  then obtain a where a: "list_studies_schema raw = Inr a"
    and u: "u = url_toString (list_studies_url a)"
    using tool_list_studies_requests by blast
  from a have "raw ''cond'' = Some (JStr (ls_cond a))"
    by (simp add: list_studies_schema_Inr_iff z_string_Inr_iff)
  moreover have "map_of (request_params u) ''query.cond'' = Some (ls_cond a)"
    unfolding u by (simp add: list_studies_lookup)
  ultimately show "\<exists>c. raw ''cond'' = Some (JStr c) \<and> map_of (request_params u) ''query.cond'' = Some c"
    by blast
next
  assume "fst (tool_list_studies fetch (raw(''cond'' \<mapsto> JStr c))) \<noteq> []"
  then obtain u where "u \<in> set (fst (tool_list_studies fetch (raw(''cond'' \<mapsto> JStr c))))"
    by (cases "fst (tool_list_studies fetch (raw(''cond'' \<mapsto> JStr c)))") auto
  then obtain a where a: "list_studies_schema (raw(''cond'' \<mapsto> JStr c)) = Inr a"
    using tool_list_studies_requests by blast
  let ?a = "a\<lparr>ls_cond := []\<rparr>"
  have e: "list_studies_schema (raw(''cond'' \<mapsto> JStr [])) = Inr ?a"
    using a unfolding list_studies_schema_Inr_iff by (simp add: z_string_Inr_iff)
  have "fst (tool_list_studies fetch (raw(''cond'' \<mapsto> JStr []))) = [url_toString (list_studies_url ?a)]"
    by (simp add: tool_list_studies_runs[OF e])
  moreover have "map_of (request_params (url_toString (list_studies_url ?a))) ''query.cond'' = Some []"
    by (simp add: list_studies_lookup)
  ultimately show "\<exists>u. fst (tool_list_studies fetch (raw(''cond'' \<mapsto> JStr []))) = [u] \<and>
         map_of (request_params u) ''query.cond'' = Some []"
    by blast
qed

theorem cond_is_required_and_may_be_empty_witness:
  "call_no_cond ''cond'' = None \<and>
   tool_list_studies example_ok call_no_cond = ([], InvalidParams [(''cond'', Required)]) \<and>
   fst (tool_list_studies example_ok (call_cond_only(''cond'' \<mapsto> JStr ''flu''))) =
     [''https://clinicaltrials.gov/api/v2/studies?query.cond=flu&pageSize=20&format=json&countTotal=true''] \<and>
   fst (tool_list_studies example_ok (call_cond_only(''cond'' \<mapsto> JStr []))) =
     [''https://clinicaltrials.gov/api/v2/studies?query.cond=&pageSize=20&format=json&countTotal=true''] \<and>
   map_of (request_params
     ''https://clinicaltrials.gov/api/v2/studies?query.cond=&pageSize=20&format=json&countTotal=true'')
     ''query.cond'' = Some []"
proof -
  have missing: "call_no_cond ''cond'' = None"
    by (simp add: call_no_cond_def)
  have rejected: "tool_list_studies example_ok call_no_cond = ([], InvalidParams [(''cond'', Required)])"
    by code_simp
  have r1: "fst (tool_list_studies example_ok (call_cond_only(''cond'' \<mapsto> JStr ''flu''))) =
     [''https://clinicaltrials.gov/api/v2/studies?query.cond=flu&pageSize=20&format=json&countTotal=true'']"
    by code_simp
  have r2: "fst (tool_list_studies example_ok (call_cond_only(''cond'' \<mapsto> JStr []))) =
     [''https://clinicaltrials.gov/api/v2/studies?query.cond=&pageSize=20&format=json&countTotal=true'']"
    by code_simp
  have "map_of (request_params
     ''https://clinicaltrials.gov/api/v2/studies?query.cond=&pageSize=20&format=json&countTotal=true'')
     ''query.cond'' = Some []"
    using cond_is_required_and_may_be_empty[of call_cond_only example_ok "''flu''"]
    unfolding r1 r2 by simp
  then show ?thesis
    using missing rejected r1 r2 by simp
qed

text \<open>
  The claim as the spec words it (an empty \<open>cond\<close> is rejected, no request with an empty
  \<open>query.cond\<close> is ever sent) fails: the call with \<open>cond\<close> given as \<open>""\<close> passes the
  schema and fetches a URL whose \<open>query.cond\<close> is empty.
\<close>

theorem empty_cond_counterexample:
  "call_empty_cond ''cond'' = Some (JStr []) \<and>
   tool_list_studies example_not_found call_empty_cond =
     ([''https://clinicaltrials.gov/api/v2/studies?query.cond=&pageSize=20&format=json&countTotal=true''],
      HandlerReturned
        \<lparr>content =
           [\<lparr>block_type = ''text'',
             block_text = ''ClinicalTrials.gov error: 404 Not Found'' @ [CHR 0x0A] @ ''not found''\<rparr>]\<rparr>) \<and>
   map_of (request_params
     ''https://clinicaltrials.gov/api/v2/studies?query.cond=&pageSize=20&format=json&countTotal=true'')
     ''query.cond'' = Some []"
  by code_simp

end
